theory Spec2Isabelle
  imports Main "HOL-Library.AList"
begin

section \<open>Go values used by the connection package\<close>

text \<open>
  A Go \<open>byte\<close> and an element of a Go \<open>string\<close> are both eight-bit values, as is a HOL
  \<open>char\<close>; \<open>len\<close> of a Go string counts bytes, as \<open>length\<close> does here.
\<close>

type_synonym byte = char

text \<open>
  A call either returns or panics. A panic in a goroutine ends the program, so no state
  survives it.
\<close>

datatype 'a go = Panic | Return 'a

subsection \<open>Errors\<close>

text \<open>
  The error values that occur in \<open>connection.go\<close>:
  the two sentinels, \<open>errors.New\<close> (and \<open>fmt.Errorf\<close> without \<open>%w\<close>) with its message,
  \<open>fmt.Errorf(prefix + "%w", err)\<close>, the package's own \<open>ErrUnpack\<close> struct with its two
  fields (\<open>Err\<close> is an interface value and may be nil), \<open>utils.NewSafeError(err, msg)\<close> of
  the codec library, and an error handed in by a collaborator (codec, framer, transport)
  with the message it reports.
\<close>

datatype go_error =
    ErrConnectionClosed
  | ErrSendTimeout
  | ErrorsNew string
  | Errorf string go_error
  | ErrUnpack "go_error option" "byte list"
  | SafeError go_error string
  | Foreign string

text \<open>
  \<open>Error()\<close>. For \<open>ErrUnpack\<close> the source is \<open>return e.Err.Error()\<close> (line 53): a
  method call on the interface value \<open>e.Err\<close>, which is a nil-pointer panic when
  \<open>e.Err\<close> is nil. \<open>fmt.Errorf\<close> with \<open>%w\<close> prints the wrapped error's message
  after the prefix; \<open>SafeError\<close> reports its own message only.
\<close>

fun Error :: "go_error \<Rightarrow> string go" where
  "Error ErrConnectionClosed = Return ''connection closed''"
| "Error ErrSendTimeout = Return ''message send timeout''"
| "Error (ErrorsNew s) = Return s"
| "Error (Errorf prefix e) = (case Error e of Panic \<Rightarrow> Panic | Return s \<Rightarrow> Return (prefix @ s))"
| "Error (ErrUnpack None raw) = Panic"
| "Error (ErrUnpack (Some e) raw) = Error e"
| "Error (SafeError e msg) = Return msg"
| "Error (Foreign s) = Return s"

text \<open>\<open>Unwrap()\<close>: for \<open>ErrUnpack\<close> the source is \<open>return e.Err\<close> (line 57).\<close>

fun Unwrap :: "go_error \<Rightarrow> go_error option" where
  "Unwrap (ErrUnpack e raw) = e"
| "Unwrap (Errorf prefix e) = Some e"
| "Unwrap (SafeError e msg) = Some e"
| "Unwrap _ = None"

text \<open>
  \<open>errors.Is\<close> and \<open>errors.As\<close> of the Go standard library are loops over the chain
  that \<open>Unwrap()\<close> gives: test the error at hand, call its \<open>Unwrap()\<close>, stop at nil.
  \<open>Is\<close> tests with Go's \<open>==\<close> on error values, which is the identity of the
  pointer for the pointer types here; it is the parameter \<open>same\<close>. \<open>As\<close> tests the
  type, given as a predicate.
\<close>

function errors_Is :: "(go_error \<Rightarrow> go_error \<Rightarrow> bool) \<Rightarrow> go_error \<Rightarrow> go_error \<Rightarrow> bool" where
  "errors_Is same err target =
     (if same err target then True
      else case Unwrap err of
             None \<Rightarrow> False
           | Some e \<Rightarrow> errors_Is same e target)"
  by pat_completeness auto
termination
proof (relation "measure (\<lambda>(same, err, target). size err)")
  show "wf (measure (\<lambda>(same, err, target). size err))" by simp
next
  fix same :: "go_error \<Rightarrow> go_error \<Rightarrow> bool" and err target e :: go_error
  assume "Unwrap err = Some e"
  then have "size e < size err" by (cases err) auto
  then show "((same, e, target), (same, err, target)) \<in> measure (\<lambda>(same, err, target). size err)"
    by simp
qed

function errors_As :: "go_error \<Rightarrow> (go_error \<Rightarrow> bool) \<Rightarrow> go_error option" where
  "errors_As err ty =
     (if ty err then Some err
      else case Unwrap err of
             None \<Rightarrow> None
           | Some e \<Rightarrow> errors_As e ty)"
  by pat_completeness auto
termination
proof (relation "measure (\<lambda>(err, ty). size err)")
  show "wf (measure (\<lambda>(err, ty). size err))" by simp
next
  fix err e :: go_error and ty :: "go_error \<Rightarrow> bool"
  assume "Unwrap err = Some e"
  then have "size e < size err" by (cases err) auto
  then show "((e, ty), (err, ty)) \<in> measure (\<lambda>(err, ty). size err)"
    by simp
qed

text \<open>The type test \<open>*ErrUnpack\<close> of \<open>errors.As(err, &unpackErr)\<close>, and the field read.\<close>

fun is_ErrUnpack :: "go_error \<Rightarrow> bool" where
  "is_ErrUnpack (ErrUnpack e raw) = True"
| "is_ErrUnpack _ = False"

fun RawMessage :: "go_error \<Rightarrow> byte list" where
  "RawMessage (ErrUnpack e raw) = raw"
| "RawMessage _ = []"

subsection \<open>The codec\<close>

text \<open>
  The ISO 8583 codec is another module; the package uses four of its operations on a
  message of type \<open>'m\<close>. A Go call returning \<open>(v, err)\<close> is a pair whose second component
  is \<open>None\<close> for a nil error. \<open>Send\<close> and \<open>Reply\<close> call \<open>message.Pack()\<close> before any nil
  check, so \<open>Pack\<close> takes the pointer (\<open>None\<close> is nil) and may panic; \<open>GetMTI\<close> and
  \<open>GetString\<close> are only called behind a nil check. \<open>Unpack raw\<close> stands for
  \<open>iso8583.NewMessage(c.spec)\<close> followed by \<open>message.Unpack(raw)\<close>.
\<close>

record 'm codec =
  Pack :: "'m option \<Rightarrow> (byte list \<times> go_error option) go"
  Unpack :: "byte list \<Rightarrow> 'm \<times> go_error option"
  GetMTI :: "'m \<Rightarrow> string \<times> go_error option"
  GetString :: "'m \<Rightarrow> int \<Rightarrow> string \<times> go_error option"

section \<open>Correlation and classification\<close>

text \<open>\<open>requestID\<close> (lines 435-450): the value of field 11, or an error.\<close>

definition requestID :: "'m codec \<Rightarrow> 'm option \<Rightarrow> go_error + string" where
  "requestID cd message =
     (case message of
        None \<Rightarrow> Inl (ErrorsNew ''message required'')
      | Some m \<Rightarrow>
          (case GetString cd m 11 of
             (stan, Some err) \<Rightarrow> Inl (Errorf ''getting STAN (field 11) of the message: '' err)
           | (stan, None) \<Rightarrow>
               if stan = [] then Inl (ErrorsNew ''STAN is missing'') else Inr stan))"

text \<open>
  The conversion \<open>string(b)\<close> of a byte: Go reads the byte as a code point and encodes it
  in UTF-8, one byte below 128 and two bytes from 128 on.
\<close>

definition string_of_byte :: "byte \<Rightarrow> string" where
  "string_of_byte b =
     (let n = (of_char b :: nat)
      in if n < 128 then [b] else [char_of (192 + n div 64), char_of (128 + n mod 64)])"

definition messageFunctionIndex :: nat where
  "messageFunctionIndex = 2"

definition messageFunctionRequestResponse :: string where
  "messageFunctionRequestResponse = ''1''"

definition messageFunctionAdviceResponse :: string where
  "messageFunctionAdviceResponse = ''3''"

definition messageFunctionNotificationAcknowledgment :: string where
  "messageFunctionNotificationAcknowledgment = ''5''"

definition messageFunctionInstructionAcknowledgment :: string where
  "messageFunctionInstructionAcknowledgment = ''7''"

text \<open>
  \<open>isResponse\<close> (lines 464-486). The error of \<open>GetMTI\<close> is dropped, as in the source;
  the index \<open>mti[2]\<close> is read only behind the length check.
\<close>

definition isResponse :: "'m codec \<Rightarrow> 'm option \<Rightarrow> bool" where
  "isResponse cd message =
     (case message of
        None \<Rightarrow> False
      | Some m \<Rightarrow>
          (let mti = fst (GetMTI cd m)
           in if length mti < 4 then False
              else let messageFunction = string_of_byte (mti ! messageFunctionIndex)
                   in if messageFunction = messageFunctionRequestResponse
                         \<or> messageFunction = messageFunctionAdviceResponse
                         \<or> messageFunction = messageFunctionNotificationAcknowledgment
                         \<or> messageFunction = messageFunctionInstructionAcknowledgment
                      then True
                      else False))"

section \<open>The connection\<close>

subsection \<open>State and effects\<close>

text \<open>
  A channel is named by a number; \<open>None\<close> is the nil channel. A handler is a Go function
  value supplied by the embedder; only its identity and whether it is set matter here.
\<close>

type_synonym chan = "nat option"

type_synonym handler = nat

record request =
  req_rawMessage :: "byte list"
  req_requestID :: string
  req_replyCh :: chan
  req_errCh :: chan

record response =
  replyCh :: chan
  errCh :: chan

text \<open>
  The transport \<open>c.conn\<close> is an \<open>io.ReadWriteCloser\<close> of the embedder: what \<open>Write\<close>
  answers for a buffer and what \<open>Close\<close> answers.
\<close>

record transport =
  conn_Write :: "byte list \<Rightarrow> go_error option"
  conn_Close :: "go_error option"

record Options =
  ErrorHandler :: "handler option"
  InboundMessageHandler :: "handler option"
  PingHandler :: "handler option"
  ReadTimeoutHandler :: "handler option"
  ConnectionClosedHandlers :: "handler list"

text \<open>
  Every operation on a shared resource is written to a trace in program order: the
  completion barrier \<open>wg\<close>, the done-signal, the transport, the pending table
  \<open>respMap\<close>, the channels, and the goroutines started with \<open>go\<close>. A blocking operation
  (\<open>wg.Wait()\<close>, a send on an unbuffered channel) is recorded where the source performs
  it; the statements after it are those the goroutine runs once it is released.
\<close>

datatype 'm event =
    WgAdd
  | WgDone
  | WgWait
  | CloseDoneCh
  | ConnClose
  | ConnWrite "byte list"
  | RespMapStore string response
  | RespMapLoad string
  | RespMapDelete string
  | RequestsChSend request
  | ReadResponseChSend "byte list"
  | ErrChSend chan "go_error option"
  | ReplyChSend chan 'm
  | GoErrorHandler handler go_error
  | GoInboundMessageHandler handler 'm
  | GoPingHandler handler
  | GoReadTimeoutHandler handler
  | GoConnectionClosedHandler handler
  | GoDrainRequests
  | GoWaitDone
  | GoSalvage chan
  | GoLoops

text \<open>
  The fields of \<open>Connection\<close> the modelled functions read or write. \<open>done_closed\<close> says
  whether the channel \<open>done\<close> has been closed; \<open>respMap\<close> is an association list with
  one entry per key (a Go map ranges over its entries in no fixed order; the list fixes
  one); \<open>nchan\<close> counts the channels made so far, so that \<open>make(chan \<dots>)\<close> yields a fresh
  one. The framer \<open>writeMessageLength\<close> answers the header bytes it wrote and its error;
  \<open>None\<close> is a nil function value.
\<close>

record 'm Connection =
  Opts :: Options
  conn :: "transport option"
  done_closed :: bool
  writeMessageLength :: "(int \<Rightarrow> byte list \<times> go_error option) option"
  respMap :: "(string \<times> response) list"
  closing :: bool
  nchan :: nat
  trace :: "'m event list"

definition emit :: "'m event list \<Rightarrow> 'm Connection \<Rightarrow> 'm Connection" where
  "emit evs c = c\<lparr>trace := trace c @ evs\<rparr>"

text \<open>
  \<open>New\<close> with the options already applied, and \<open>NewFrom\<close>, which sets the transport
  and starts the three loops (\<open>run\<close>).
\<close>

definition New ::
  "Options \<Rightarrow> (int \<Rightarrow> byte list \<times> go_error option) option \<Rightarrow> 'm Connection" where
  "New opts mlWriter =
     \<lparr>Opts = opts, conn = None, done_closed = False, writeMessageLength = mlWriter,
      respMap = [], closing = False, nchan = 0, trace = []\<rparr>"

definition NewFrom ::
  "transport \<Rightarrow> Options \<Rightarrow> (int \<Rightarrow> byte list \<times> go_error option) option \<Rightarrow> 'm Connection"
  where
  "NewFrom t opts mlWriter = emit [GoLoops] ((New opts mlWriter)\<lparr>conn := Some t\<rparr>)"

subsection \<open>Error reporting and teardown\<close>

text \<open>\<open>handleError\<close> (lines 194-200).\<close>

definition handleError :: "'m Connection \<Rightarrow> go_error \<Rightarrow> 'm Connection" where
  "handleError c err =
     (case ErrorHandler (Opts c) of
        None \<Rightarrow> c
      | Some h \<Rightarrow> emit [GoErrorHandler h err] c)"

text \<open>
  \<open>close\<close> (lines 251-265): wait on the barrier, close the done-signal, then close the
  transport if there is one. Closing a closed channel panics.
\<close>

definition close :: "'m Connection \<Rightarrow> (go_error option \<times> 'm Connection) go" where
  "close c =
     (let c1 = emit [WgWait] c
      in if done_closed c1 then Panic
         else
           let c2 = emit [CloseDoneCh] (c1\<lparr>done_closed := True\<rparr>)
           in case conn c2 of
                None \<Rightarrow> Return (None, c2)
              | Some t \<Rightarrow>
                  (let c3 = emit [ConnClose] c2
                   in case conn_Close t of
                        Some err \<Rightarrow> Return (Some (Errorf ''closing connection: '' err), c3)
                      | None \<Rightarrow> Return (None, c3)))"

text \<open>\<open>Close\<close> (lines 269-280).\<close>

definition Close :: "'m Connection \<Rightarrow> (go_error option \<times> 'm Connection) go" where
  "Close c =
     (if closing c then Return (None, c)
      else close (c\<lparr>closing := True\<rparr>))"

text \<open>
  \<open>handleConnectionError\<close> (lines 203-249). The two goroutines it starts (the one that
  answers \<open>ErrConnectionClosed\<close> to requests still arriving on the queue, and the one
  that waits on the barrier to stop the first) are recorded as started; the result of
  \<open>c.close()\<close> is dropped, as in the source.
\<close>

definition handleConnectionError ::
  "'m Connection \<Rightarrow> go_error option \<Rightarrow> 'm Connection go" where
  "handleConnectionError c err =
     (if err = None \<or> closing c then Return c
      else
        let c1 = c\<lparr>closing := True\<rparr>;
            c2 = emit (map (\<lambda>(k, resp). ErrChSend (errCh resp) (Some ErrConnectionClosed))
                         (respMap c1)) c1;
            c3 = emit [GoDrainRequests, GoWaitDone] c2
        in case close c3 of
             Panic \<Rightarrow> Panic
           | Return (r, c4) \<Rightarrow>
               Return (emit (map GoConnectionClosedHandler
                               (ConnectionClosedHandlers (Opts c4))) c4))"

text \<open>
  One turn of the first goroutine started by \<open>handleConnectionError\<close> (lines 224-234):
  a request that still arrives on the queue is answered \<open>ErrConnectionClosed\<close>.
\<close>

definition drainRequests_turn :: "'m Connection \<Rightarrow> request \<Rightarrow> 'm Connection" where
  "drainRequests_turn c req = emit [ErrChSend (req_errCh req) (Some ErrConnectionClosed)] c"

subsection \<open>Send and Reply\<close>

text \<open>
  \<open>Send\<close> blocks twice: on the hand-over of the request to the writer and on the
  \<open>select\<close>. \<open>Send_enqueue\<close> is the function up to and including
  \<open>c.requestsCh <- req\<close> (lines 310-353); it either returns to the caller or has put
  the request on the queue. \<open>Send_wait\<close> is the rest (lines 355-381), given what the
  \<open>select\<close> received. The deferred \<open>c.wg.Done()\<close> runs at each return.
  \<open>bytes.Buffer.Write\<close> never returns an error, so the check after it has no branch.
\<close>

datatype 'm send_step =
    SendReturned "'m option" "go_error option"
  | SendEnqueued request

definition Send_enqueue ::
  "'m codec \<Rightarrow> 'm Connection \<Rightarrow> 'm option \<Rightarrow> ('m send_step \<times> 'm Connection) go" where
  "Send_enqueue cd c message =
     (let c1 = emit [WgAdd] c
      in if closing c1
         then Return (SendReturned None (Some ErrConnectionClosed), emit [WgDone] c1)
         else
           case Pack cd message of
             Panic \<Rightarrow> Panic
           | Return (packed, Some err) \<Rightarrow>
               Return (SendReturned None (Some (Errorf ''packing message: '' err)),
                       emit [WgDone] c1)
           | Return (packed, None) \<Rightarrow>
               (case writeMessageLength c1 of
                  None \<Rightarrow> Panic
                | Some wml \<Rightarrow>
                    (case wml (int (length packed)) of
                       (header, Some err) \<Rightarrow>
                         Return (SendReturned None
                                   (Some (Errorf ''writing message header to buffer: '' err)),
                                 emit [WgDone] c1)
                     | (header, None) \<Rightarrow>
                         (let buf = header @ packed
                          in case requestID cd message of
                               Inl err \<Rightarrow>
                                 Return (SendReturned None
                                           (Some (Errorf ''creating request ID: '' err)),
                                         emit [WgDone] c1)
                             | Inr reqID \<Rightarrow>
                                 (let req = \<lparr>req_rawMessage = buf, req_requestID = reqID,
                                             req_replyCh = Some (nchan c1),
                                             req_errCh = Some (nchan c1 + 1)\<rparr>;
                                      c2 = c1\<lparr>nchan := nchan c1 + 2\<rparr>
                                  in Return (SendEnqueued req,
                                             emit [RequestsChSend req] c2))))))"

text \<open>What the \<open>select\<close> of \<open>Send\<close> or \<open>Reply\<close> received.\<close>

datatype 'm wait = GotReply 'm | GotErr "go_error option" | TimedOut

definition Send_wait ::
  "'m Connection \<Rightarrow> request \<Rightarrow> 'm wait \<Rightarrow> ('m option \<times> go_error option) \<times> 'm Connection"
  where
  "Send_wait c req w =
     (let (resp, err, c1) =
            (case w of
               GotReply m \<Rightarrow> (Some m, None, c)
             | GotErr e \<Rightarrow> (None, e, c)
             | TimedOut \<Rightarrow>
                 (None, Some ErrSendTimeout,
                  if InboundMessageHandler (Opts c) \<noteq> None
                  then emit [GoSalvage (req_replyCh req)] c else c));
          c2 = emit [RespMapDelete (req_requestID req)]
                 (c1\<lparr>respMap := AList.delete (req_requestID req) (respMap c1)\<rparr>)
      in ((resp, err), emit [WgDone] c2))"

text \<open>\<open>Reply\<close>, split the same way (lines 387-421 and 423-429).\<close>

datatype reply_step =
    ReplyReturned "go_error option"
  | ReplyEnqueued request

definition Reply_enqueue ::
  "'m codec \<Rightarrow> 'm Connection \<Rightarrow> 'm option \<Rightarrow> (reply_step \<times> 'm Connection) go" where
  "Reply_enqueue cd c message =
     (let c1 = emit [WgAdd] c
      in if closing c1
         then Return (ReplyReturned (Some ErrConnectionClosed), emit [WgDone] c1)
         else
           case Pack cd message of
             Panic \<Rightarrow> Panic
           | Return (packed, Some err) \<Rightarrow>
               Return (ReplyReturned (Some (Errorf ''packing message: '' err)),
                       emit [WgDone] c1)
           | Return (packed, None) \<Rightarrow>
               (case writeMessageLength c1 of
                  None \<Rightarrow> Panic
                | Some wml \<Rightarrow>
                    (case wml (int (length packed)) of
                       (header, Some err) \<Rightarrow>
                         Return (ReplyReturned
                                   (Some (Errorf ''writing message header to buffer: '' err)),
                                 emit [WgDone] c1)
                     | (header, None) \<Rightarrow>
                         (let buf = header @ packed;
                              req = \<lparr>req_rawMessage = buf, req_requestID = [],
                                     req_replyCh = None, req_errCh = Some (nchan c1)\<rparr>;
                              c2 = c1\<lparr>nchan := nchan c1 + 1\<rparr>
                          in Return (ReplyEnqueued req, emit [RequestsChSend req] c2)))))"

datatype reply_wait = ReplyGotErr "go_error option" | ReplyTimedOut

definition Reply_wait ::
  "'m Connection \<Rightarrow> request \<Rightarrow> reply_wait \<Rightarrow> go_error option \<times> 'm Connection" where
  "Reply_wait c req w =
     (let err = (case w of ReplyGotErr e \<Rightarrow> e | ReplyTimedOut \<Rightarrow> Some ErrSendTimeout)
      in (err, emit [WgDone] c))"

subsection \<open>The loops\<close>

text \<open>
  One turn of \<open>writeLoop\<close> (lines 490-531) for each case of its \<open>select\<close>. The
  \<open>break\<close> after a failed write leaves the \<open>select\<close>; the loop condition
  \<open>err == nil\<close> then ends the loop and \<open>handleConnectionError(err)\<close> runs.
  The result says whether the loop goes on.
\<close>

datatype loop = Continue | Exit

definition writeLoop_request ::
  "'m Connection \<Rightarrow> request \<Rightarrow> (loop \<times> 'm Connection) go" where
  "writeLoop_request c req =
     (let c1 = (if req_replyCh req \<noteq> None
                then
                  let resp = \<lparr>replyCh = req_replyCh req, errCh = req_errCh req\<rparr>
                  in emit [RespMapStore (req_requestID req) resp]
                       (c\<lparr>respMap := AList.update (req_requestID req) resp (respMap c)\<rparr>)
                else c)
      in case conn c1 of
           None \<Rightarrow> Panic
         | Some t \<Rightarrow>
             (let c2 = emit [ConnWrite (req_rawMessage req)] c1
              in case conn_Write t (req_rawMessage req) of
                   Some err \<Rightarrow>
                     (let c3 = handleError c2
                                 (SafeError err ''failed to write message into connection'')
                      in case handleConnectionError c3 (Some err) of
                           Panic \<Rightarrow> Panic
                         | Return c4 \<Rightarrow> Return (Exit, c4))
                 | None \<Rightarrow>
                     (if req_replyCh req = None
                      then Return (Continue, emit [ErrChSend (req_errCh req) None] c2)
                      else Return (Continue, c2))))"

definition writeLoop_idle :: "'m Connection \<Rightarrow> loop \<times> 'm Connection" where
  "writeLoop_idle c =
     (case PingHandler (Opts c) of
        Some h \<Rightarrow> (Continue, emit [GoPingHandler h] c)
      | None \<Rightarrow> (Continue, c))"

text \<open>
  One turn of \<open>readLoop\<close> (lines 535-559), given what the two reads from the
  transport produced: a failure of the length header, a failure of the payload, or a
  whole payload, which is handed to the dispatcher. A failure ends the loop and
  \<open>handleConnectionError(err)\<close> runs.
\<close>

datatype read = ReadLengthFailed go_error | ReadMessageFailed go_error | ReadMessage "byte list"

definition readLoop_turn :: "'m Connection \<Rightarrow> read \<Rightarrow> (loop \<times> 'm Connection) go" where
  "readLoop_turn c rd =
     (case rd of
        ReadLengthFailed err \<Rightarrow>
          (case handleConnectionError
                  (handleError c (SafeError err ''failed to read message length'')) (Some err) of
             Panic \<Rightarrow> Panic
           | Return c' \<Rightarrow> Return (Exit, c'))
      | ReadMessageFailed err \<Rightarrow>
          (case handleConnectionError
                  (handleError c (SafeError err ''failed to read message from connection''))
                  (Some err) of
             Panic \<Rightarrow> Panic
           | Return c' \<Rightarrow> Return (Exit, c'))
      | ReadMessage rawMessage \<Rightarrow> Return (Continue, emit [ReadResponseChSend rawMessage] c))"

text \<open>
  The timeout case of \<open>readResponseLoop\<close> (lines 561-574); its other case starts
  \<open>handleResponse\<close> on the payload received.
\<close>

definition readResponseLoop_idle :: "'m Connection \<Rightarrow> loop \<times> 'm Connection" where
  "readResponseLoop_idle c =
     (case ReadTimeoutHandler (Opts c) of
        Some h \<Rightarrow> (Continue, emit [GoReadTimeoutHandler h] c)
      | None \<Rightarrow> (Continue, c))"

text \<open>\<open>handleResponse\<close> (lines 578-615).\<close>

definition handleResponse :: "'m codec \<Rightarrow> 'm Connection \<Rightarrow> byte list \<Rightarrow> 'm Connection" where
  "handleResponse cd c rawMessage =
     (case Unpack cd rawMessage of
        (message, Some err) \<Rightarrow>
          (let unpackErr = ErrUnpack (Some err) rawMessage
           in handleError c (SafeError unpackErr ''failed to unpack message''))
      | (message, None) \<Rightarrow>
          if isResponse cd (Some message)
          then
            (case requestID cd (Some message) of
               Inl err \<Rightarrow> handleError c (Errorf ''creating request ID:  '' err)
             | Inr reqID \<Rightarrow>
                 (let c1 = emit [RespMapLoad reqID] c
                  in case map_of (respMap c1) reqID of
                       Some response \<Rightarrow> emit [ReplyChSend (replyCh response) message] c1
                     | None \<Rightarrow>
                         (case InboundMessageHandler (Opts c1) of
                            Some h \<Rightarrow> emit [GoInboundMessageHandler h message] c1
                          | None \<Rightarrow>
                              handleError c1
                                (ErrorsNew (''can'' @ [CHR 0x27] @ ''t find request for ID: ''
                                            @ reqID)))))
          else
            (case InboundMessageHandler (Opts c) of
               Some h \<Rightarrow> emit [GoInboundMessageHandler h message] c
             | None \<Rightarrow> c))"

subsection \<open>A lifetime of the connection\<close>

text \<open>
  The life of one connection as a list of steps: calls of the public methods by the
  embedder and turns of the loops and of the goroutines they start. \<open>Send\<close> and
  \<open>Reply\<close> are two steps each, split where they wait for other goroutines.
  \<open>Close\<close> and \<open>handleConnectionError\<close> are one step each, from the test of
  \<open>closing\<close> to the return: the test and the set of the flag are one critical section
  of \<open>c.mutex\<close>, and only the goroutine that set the flag runs the rest. Any order of
  steps is allowed, also orders that the loops cannot produce.
\<close>

datatype 'm call =
    CallClose
  | CallSend "'m option"
  | CallSendWait request "'m wait"
  | CallReply "'m option"
  | CallReplyWait request reply_wait
  | WriterRequest request
  | WriterIdle
  | ReaderTurn read
  | DispatcherIdle
  | Inbound "byte list"
  | DrainRequest request

fun state_of :: "('a \<times> 'm Connection) go \<Rightarrow> 'm Connection go" where
  "state_of Panic = Panic"
| "state_of (Return (r, c)) = Return c"

fun exec :: "'m codec \<Rightarrow> 'm call \<Rightarrow> 'm Connection \<Rightarrow> 'm Connection go" where
  "exec cd CallClose c = state_of (Close c)"
| "exec cd (CallSend message) c = state_of (Send_enqueue cd c message)"
| "exec cd (CallSendWait req w) c = Return (snd (Send_wait c req w))"
| "exec cd (CallReply message) c = state_of (Reply_enqueue cd c message)"
| "exec cd (CallReplyWait req w) c = Return (snd (Reply_wait c req w))"
| "exec cd (WriterRequest req) c = state_of (writeLoop_request c req)"
| "exec cd WriterIdle c = Return (snd (writeLoop_idle c))"
| "exec cd (ReaderTurn rd) c = state_of (readLoop_turn c rd)"
| "exec cd DispatcherIdle c = Return (snd (readResponseLoop_idle c))"
| "exec cd (Inbound rawMessage) c = Return (handleResponse cd c rawMessage)"
| "exec cd (DrainRequest req) c = Return (drainRequests_turn c req)"

fun run :: "'m codec \<Rightarrow> 'm call list \<Rightarrow> 'm Connection \<Rightarrow> 'm Connection go" where
  "run cd [] c = Return c"
| "run cd (x # xs) c = (case exec cd x c of Panic \<Rightarrow> Panic | Return c' \<Rightarrow> run cd xs c')"

text \<open>
  A connection on which no teardown has started: the flag is unset, the done-signal is
  open, and neither the done-signal nor the transport has been closed.
\<close>

definition fresh :: "'m Connection \<Rightarrow> bool" where
  "fresh c =
     (\<not> closing c \<and> \<not> done_closed c
      \<and> count_list (trace c) CloseDoneCh = 0 \<and> count_list (trace c) ConnClose = 0)"

text \<open>
  What every call keeps: the done-signal is closed only on a closing connection, it has
  been closed once if it is closed and never otherwise, and the transport has been
  closed no more often than the done-signal.
\<close>

definition teardown_inv :: "'m Connection \<Rightarrow> bool" where
  "teardown_inv c =
     ((done_closed c \<longrightarrow> closing c)
      \<and> count_list (trace c) CloseDoneCh = (if done_closed c then 1 else 0)
      \<and> count_list (trace c) ConnClose \<le> count_list (trace c) CloseDoneCh)"

text \<open>A call from \<open>c\<close> to \<open>c'\<close> keeps this and never unsets the closing flag.\<close>

definition kept :: "'m Connection \<Rightarrow> 'm Connection \<Rightarrow> bool" where
  "kept c c' = (teardown_inv c' \<and> (closing c \<longrightarrow> closing c'))"

text \<open>The events a call added to the trace, and the trace a call left behind.\<close>

definition added :: "'m Connection \<Rightarrow> 'm Connection \<Rightarrow> 'm event list" where
  "added c c' = drop (length (trace c)) (trace c')"




fun is_RequestsChSend :: "'m event \<Rightarrow> bool" where
  "is_RequestsChSend (RequestsChSend req) = True"
| "is_RequestsChSend _ = False"

fun is_RespMap :: "'m event \<Rightarrow> bool" where
  "is_RespMap (RespMapStore k r) = True"
| "is_RespMap (RespMapLoad k) = True"
| "is_RespMap (RespMapDelete k) = True"
| "is_RespMap _ = False"

subsection \<open>A small codec and connection to run the functions on\<close>

text \<open>
  A message is its MTI and its field 11. It packs to the two concatenated, unpacks from
  at least four bytes, and has no other field. \<open>Pack\<close> on a nil message panics.
\<close>

definition memCodec :: "(string \<times> string) codec" where
  "memCodec =
     \<lparr>Pack = (\<lambda>message. case message of
                 None \<Rightarrow> Panic
               | Some (mti, stan) \<Rightarrow>
                   if mti = [] then Return ([], Some (Foreign ''no MTI''))
                   else Return (mti @ stan, None)),
      Unpack = (\<lambda>raw. if length raw < 4 then (([], []), Some (Foreign ''short message''))
                      else ((take 4 raw, drop 4 raw), None)),
      GetMTI = (\<lambda>(mti, stan). (mti, None)),
      GetString = (\<lambda>(mti, stan) i. if i = 11 then (stan, None)
                                    else ([], Some (Foreign ''no such field'')))\<rparr>"

text \<open>
  A transport that accepts every write and closes cleanly, one that fails every write,
  and a framer that writes the length as one byte and refuses lengths over 255.
\<close>

definition goodConn :: transport where
  "goodConn = \<lparr>conn_Write = (\<lambda>b. None), conn_Close = None\<rparr>"


definition oneByteLength :: "int \<Rightarrow> byte list \<times> go_error option" where
  "oneByteLength n = (if n < 256 then ([char_of n], None) else ([], Some (Foreign ''too long'')))"

definition allHandlers :: Options where
  "allHandlers =
     \<lparr>ErrorHandler = Some 11, InboundMessageHandler = Some 12, PingHandler = Some 13,
      ReadTimeoutHandler = Some 14, ConnectionClosedHandlers = [15]\<rparr>"

definition noHandlers :: Options where
  "noHandlers =
     \<lparr>ErrorHandler = None, InboundMessageHandler = None, PingHandler = None,
      ReadTimeoutHandler = None, ConnectionClosedHandlers = []\<rparr>"

definition demoConn :: "(string \<times> string) Connection" where
  "demoConn = NewFrom goodConn allHandlers (Some oneByteLength)"

text \<open>The same connection with one request registered under the correlator 000001.\<close>

definition demoPending :: "(string \<times> string) Connection" where
  "demoPending = demoConn\<lparr>respMap := [(''000001'', \<lparr>replyCh = Some 4, errCh = Some 5\<rparr>)],
                          nchan := 6\<rparr>"




text \<open>A connection without any handler, and the request of a second \<open>Send\<close>.\<close>

definition quietDemo :: "(string \<times> string) Connection" where
  "quietDemo = NewFrom goodConn noHandlers (Some oneByteLength)"

definition demoRequest2 :: request where
  "demoRequest2 =
     \<lparr>req_rawMessage = char_of (10 :: int) # ''0800000002'', req_requestID = ''000002'',
      req_replyCh = Some 6, req_errCh = Some 7\<rparr>"

text \<open>
  The connection with one pending request after a user \<open>Close\<close>, and after a fatal
  transport error.
\<close>

definition closedPending :: "(string \<times> string) Connection" where
  "closedPending =
     emit [WgWait, CloseDoneCh, ConnClose] (demoPending\<lparr>closing := True, done_closed := True\<rparr>)"

definition failedPending :: "(string \<times> string) Connection" where
  "failedPending =
     emit [ErrChSend (Some 5) (Some ErrConnectionClosed), GoDrainRequests, GoWaitDone,
           WgWait, CloseDoneCh, ConnClose, GoConnectionClosedHandler 15]
       (demoPending\<lparr>closing := True, done_closed := True\<rparr>)"

section \<open>The goroutines, step by step\<close>

text \<open>
  The functions above give what a call does from its start to its return. Several of
  them wait for another goroutine on the way: \<open>wg.Wait()\<close> waits until every \<open>Send\<close>
  and \<open>Reply\<close> has returned, a send on one of the unbuffered channels waits until
  another goroutine receives from it, and \<open>pendingRequestsMu\<close> is held by
  \<open>handleConnectionError\<close> across its sends. This section has the same code cut at each
  of these places: a step is what one goroutine does between two of them, and a step
  whose wait is not over cannot be taken. A goroutine that waits for ever takes no
  further step.
\<close>

subsection \<open>Where each goroutine stands\<close>

text \<open>
  A \<open>Send\<close> or \<open>Reply\<close> call that has made its request: it offers the request on
  \<open>c.requestsCh\<close> (lines 353, 421), is in its \<open>select\<close> (lines 355, 423), or has taken
  a case of the \<open>select\<close> and is on its way to the return.
\<close>

datatype 'm phase = Queued | Selecting | Left "'m wait"

text \<open>
  The writer: in its \<open>select\<close> (line 494), holding a request it received (line 495),
  at \<open>req.errCh <- nil\<close> (line 517), or out of the loop.
\<close>

datatype writer_pc = WSelect | WHolds request | WSendsNil request | WExited

text \<open>
  The goroutine that set \<open>closing\<close>: \<open>Close\<close> at \<open>c.wg.Wait()\<close> (line 253);
  \<open>handleConnectionError\<close> at \<open>c.pendingRequestsMu.Lock()\<close> (line 217), in the loop
  over the entries it found in the table, with the number of entries served (lines
  218-220, holding the lock), or in \<open>c.close()\<close> at \<open>c.wg.Wait()\<close>; and the teardown
  finished, by either.
\<close>

datatype teardown_pc =
    NoTeardown
  | CloseWaits
  | HceLocks
  | HceNotifies "(string \<times> response) list" nat
  | HceWaits "(string \<times> response) list"
  | ClosedByClose
  | ClosedByHce "(string \<times> response) list"

text \<open>
  The goroutine of lines 224-234: not started, in its \<open>select\<close>, at
  \<open>req.errCh <- ErrConnectionClosed\<close> (line 228), or returned.
\<close>

datatype drain_pc = NoDrain | DrainSelect | DrainSends request | DrainExited

text \<open>
  \<open>salvage\<close> lists the reply channels on which a goroutine of lines 364-373 is
  receiving.
\<close>

record 'm live =
  con :: "'m Connection"
  inflight :: "(request \<times> 'm phase) list"
  writer :: writer_pc
  teardown :: teardown_pc
  drainer :: drain_pc
  salvage :: "chan list"

datatype 'a may = Blocked | Panicked | Next 'a

definition live_of :: "'m Connection \<Rightarrow> 'm live" where
  "live_of c =
     \<lparr>con = c, inflight = [], writer = WSelect, teardown = NoTeardown, drainer = NoDrain,
      salvage = []\<rparr>"

text \<open>
  The barrier is open when as many calls have left it as have entered it; the pending
  table is locked while \<open>handleConnectionError\<close> is in its loop.
\<close>

definition barrier_open :: "'m Connection \<Rightarrow> bool" where
  "barrier_open c = (count_list (trace c) WgAdd = count_list (trace c) WgDone)"

fun table_locked :: "teardown_pc \<Rightarrow> bool" where
  "table_locked (HceNotifies entries n) = True"
| "table_locked _ = False"

definition set_phase :: "request \<Rightarrow> 'm phase \<Rightarrow> (request \<times> 'm phase) list \<Rightarrow> (request \<times> 'm phase) list"
  where
  "set_phase req p cs = map (\<lambda>(r, q). if r = req then (r, p) else (r, q)) cs"

text \<open>The call that is in its \<open>select\<close> with this error channel, or this reply channel.\<close>

definition receiver_errCh :: "(request \<times> 'm phase) list \<Rightarrow> chan \<Rightarrow> request option" where
  "receiver_errCh cs ch =
     map_option fst (find (\<lambda>(r, q). q = Selecting \<and> req_errCh r = ch) cs)"

definition receiver_replyCh :: "(request \<times> 'm phase) list \<Rightarrow> chan \<Rightarrow> request option" where
  "receiver_replyCh cs ch =
     map_option fst (find (\<lambda>(r, q). q = Selecting \<and> req_replyCh r = ch) cs)"

subsection \<open>The pieces of the functions between two waits\<close>

text \<open>
  \<open>Close\<close> up to \<open>c.close()\<close> (lines 269-277) and \<open>handleConnectionError\<close> up to the
  lock of the pending table (lines 203-212): the test and set of \<open>closing\<close>. The
  result says whether this goroutine set the flag.
\<close>

definition Close_enter :: "'m Connection \<Rightarrow> bool \<times> 'm Connection" where
  "Close_enter c = (if closing c then (False, c) else (True, c\<lparr>closing := True\<rparr>))"

definition handleConnectionError_enter ::
  "'m Connection \<Rightarrow> go_error option \<Rightarrow> bool \<times> 'm Connection" where
  "handleConnectionError_enter c err =
     (if err = None \<or> closing c then (False, c) else (True, c\<lparr>closing := True\<rparr>))"

text \<open>The end of \<open>handleConnectionError\<close> (lines 244-248).\<close>

definition closedHandlers :: "'m Connection \<Rightarrow> 'm Connection" where
  "closedHandlers c = emit (map GoConnectionClosedHandler (ConnectionClosedHandlers (Opts c))) c"

text \<open>
  The \<open>select\<close> of \<open>Send\<close> taking a case (lines 355-375), and the end of \<open>Send\<close>
  (lines 377-381) and of \<open>Reply\<close> (line 429).
\<close>

definition Send_select :: "'m Connection \<Rightarrow> request \<Rightarrow> 'm wait \<Rightarrow> 'm Connection" where
  "Send_select c req w =
     (case w of
        TimedOut \<Rightarrow>
          if InboundMessageHandler (Opts c) \<noteq> None
          then emit [GoSalvage (req_replyCh req)] c else c
      | _ \<Rightarrow> c)"

definition Send_return :: "'m Connection \<Rightarrow> request \<Rightarrow> 'm Connection" where
  "Send_return c req =
     emit [RespMapDelete (req_requestID req), WgDone]
       (c\<lparr>respMap := AList.delete (req_requestID req) (respMap c)\<rparr>)"

definition Reply_return :: "'m Connection \<Rightarrow> 'm Connection" where
  "Reply_return c = emit [WgDone] c"

text \<open>
  The turn of the writer from the request it holds to the result of the write
  (lines 497-506).
\<close>

definition writeLoop_write ::
  "'m Connection \<Rightarrow> request \<Rightarrow> (go_error option \<times> 'm Connection) go" where
  "writeLoop_write c req =
     (let c1 = (if req_replyCh req \<noteq> None
                then
                  let resp = \<lparr>replyCh = req_replyCh req, errCh = req_errCh req\<rparr>
                  in emit [RespMapStore (req_requestID req) resp]
                       (c\<lparr>respMap := AList.update (req_requestID req) resp (respMap c)\<rparr>)
                else c)
      in case conn c1 of
           None \<Rightarrow> Panic
         | Some t \<Rightarrow>
             Return (conn_Write t (req_rawMessage req),
                     emit [ConnWrite (req_rawMessage req)] c1))"

text \<open>The sends of \<open>ErrConnectionClosed\<close> on error channels in a trace.\<close>

fun is_close_error :: "'m event \<Rightarrow> bool" where
  "is_close_error (ErrChSend ch (Some ErrConnectionClosed)) = True"
| "is_close_error _ = False"

definition close_errors :: "'m event list \<Rightarrow> 'm event list" where
  "close_errors tr = filter is_close_error tr"

definition close_error_to :: "string \<times> response \<Rightarrow> 'm event" where
  "close_error_to entry = ErrChSend (errCh (snd entry)) (Some ErrConnectionClosed)"

subsection \<open>The steps\<close>

text \<open>
  \<open>Send\<close> and \<open>Reply\<close> up to the offer of the request (\<open>Send_enqueue\<close>,
  \<open>Reply_enqueue\<close>): the call returns, or it stays at \<open>c.requestsCh <- req\<close> until
  the writer or the goroutine of lines 224-234 receives the request.
\<close>

definition step_Send :: "'m codec \<Rightarrow> 'm option \<Rightarrow> 'm live \<Rightarrow> 'm live may" where
  "step_Send cd message s =
     (case Send_enqueue cd (con s) message of
        Panic \<Rightarrow> Panicked
      | Return (SendReturned resp err, c') \<Rightarrow> Next (s\<lparr>con := c'\<rparr>)
      | Return (SendEnqueued req, c') \<Rightarrow>
          Next (s\<lparr>con := c', inflight := inflight s @ [(req, Queued)]\<rparr>))"

definition step_Reply :: "'m codec \<Rightarrow> 'm option \<Rightarrow> 'm live \<Rightarrow> 'm live may" where
  "step_Reply cd message s =
     (case Reply_enqueue cd (con s) message of
        Panic \<Rightarrow> Panicked
      | Return (ReplyReturned err, c') \<Rightarrow> Next (s\<lparr>con := c'\<rparr>)
      | Return (ReplyEnqueued req, c') \<Rightarrow>
          Next (s\<lparr>con := c', inflight := inflight s @ [(req, Queued)]\<rparr>))"

text \<open>
  The \<open>select\<close> of a call takes the timeout (lines 358-374, 425-426); with an inbound
  handler set, \<open>Send\<close> starts the goroutine that receives a late reply.
\<close>

definition step_Timeout :: "request \<Rightarrow> 'm live \<Rightarrow> 'm live may" where
  "step_Timeout req s =
     (if (req, Selecting) \<in> set (inflight s)
      then
        if req_replyCh req \<noteq> None
        then Next (s\<lparr>con := Send_select (con s) req TimedOut,
                     inflight := set_phase req (Left TimedOut) (inflight s),
                     salvage := (if InboundMessageHandler (Opts (con s)) \<noteq> None
                                 then req_replyCh req # salvage s else salvage s)\<rparr>)
        else Next (s\<lparr>inflight := set_phase req (Left TimedOut) (inflight s)\<rparr>)
      else Blocked)"

text \<open>
  A call that has left its \<open>select\<close> returns; \<open>Send\<close> first locks the pending
  table to delete its entry (lines 377-379).
\<close>

fun has_left :: "'m phase \<Rightarrow> bool" where
  "has_left (Left w) = True"
| "has_left _ = False"

definition step_Return :: "request \<Rightarrow> 'm live \<Rightarrow> 'm live may" where
  "step_Return req s =
     (if list_ex (\<lambda>(r, q). r = req \<and> has_left q) (inflight s)
      then
        if req_replyCh req \<noteq> None
        then
          if table_locked (teardown s) then Blocked
          else Next (s\<lparr>con := Send_return (con s) req,
                       inflight := filter (\<lambda>(r, q). r \<noteq> req) (inflight s)\<rparr>)
        else Next (s\<lparr>con := Reply_return (con s),
                     inflight := filter (\<lambda>(r, q). r \<noteq> req) (inflight s)\<rparr>)
      else Blocked)"

text \<open>
  The writer receives a request that is offered (line 495); the call that offered it
  goes on to its \<open>select\<close>.
\<close>

definition step_Receive :: "request \<Rightarrow> 'm live \<Rightarrow> 'm live may" where
  "step_Receive req s =
     (if writer s = WSelect \<and> (req, Queued) \<in> set (inflight s)
      then Next (s\<lparr>writer := WHolds req, inflight := set_phase req Selecting (inflight s)\<rparr>)
      else Blocked)"

text \<open>
  The writer registers and writes the request it holds (\<open>writeLoop_write\<close>; the
  registration locks the pending table). After a good write it goes to
  \<open>req.errCh <- nil\<close> for a request without reply channel and back to its
  \<open>select\<close> otherwise. After a failed write it reports the error, leaves the loop and
  enters \<open>handleConnectionError\<close> (lines 507-510, 530).
\<close>

definition step_Write :: "'m live \<Rightarrow> 'm live may" where
  "step_Write s =
     (case writer s of
        WHolds req \<Rightarrow>
          if req_replyCh req \<noteq> None \<and> table_locked (teardown s) then Blocked
          else
            (case writeLoop_write (con s) req of
               Panic \<Rightarrow> Panicked
             | Return (None, c2) \<Rightarrow>
                 Next (s\<lparr>con := c2,
                         writer := (if req_replyCh req = None then WSendsNil req else WSelect)\<rparr>)
             | Return (Some err, c2) \<Rightarrow>
                 (let c3 = handleError c2
                             (SafeError err ''failed to write message into connection'');
                      (won, c4) = handleConnectionError_enter c3 (Some err)
                  in Next (s\<lparr>con := c4, writer := WExited,
                             teardown := (if won then HceLocks else teardown s)\<rparr>)))
      | _ \<Rightarrow> Blocked)"

text \<open>
  \<open>req.errCh <- nil\<close> (line 517) is over when the \<open>Reply\<close> that made the request
  receives it in its \<open>select\<close>.
\<close>

definition step_Nil :: "'m live \<Rightarrow> 'm live may" where
  "step_Nil s =
     (case writer s of
        WSendsNil req \<Rightarrow>
          if (req, Selecting) \<in> set (inflight s)
          then Next (s\<lparr>con := emit [ErrChSend (req_errCh req) None] (con s),
                       inflight := set_phase req (Left (GotErr None)) (inflight s),
                       writer := WSelect\<rparr>)
          else Blocked
      | _ \<Rightarrow> Blocked)"

text \<open>The other two cases of the writer's \<open>select\<close> (lines 519-525).\<close>

definition step_WriterIdle :: "'m live \<Rightarrow> 'm live may" where
  "step_WriterIdle s =
     (if writer s = WSelect then Next (s\<lparr>con := snd (writeLoop_idle (con s))\<rparr>) else Blocked)"

definition step_WriterDone :: "'m live \<Rightarrow> 'm live may" where
  "step_WriterDone s =
     (if writer s = WSelect \<and> done_closed (con s) then Next (s\<lparr>writer := WExited\<rparr>)
      else Blocked)"

text \<open>
  \<open>Close\<close> sets the flag and goes to \<open>c.wg.Wait()\<close>, or finds the flag set and
  returns nil.
\<close>

definition step_Close :: "'m live \<Rightarrow> 'm live may" where
  "step_Close s =
     (let (won, c') = Close_enter (con s)
      in Next (s\<lparr>con := c', teardown := (if won then CloseWaits else teardown s)\<rparr>))"

text \<open>
  The reader (lines 540-558): a payload goes to the dispatcher; a failed read is
  reported, ends the loop and enters \<open>handleConnectionError\<close>.
\<close>

definition step_Reader :: "read \<Rightarrow> 'm live \<Rightarrow> 'm live may" where
  "step_Reader rd s =
     (case rd of
        ReadMessage rawMessage \<Rightarrow>
          Next (s\<lparr>con := emit [ReadResponseChSend rawMessage] (con s)\<rparr>)
      | ReadLengthFailed err \<Rightarrow>
          (let c1 = handleError (con s) (SafeError err ''failed to read message length'');
               (won, c2) = handleConnectionError_enter c1 (Some err)
           in Next (s\<lparr>con := c2, teardown := (if won then HceLocks else teardown s)\<rparr>))
      | ReadMessageFailed err \<Rightarrow>
          (let c1 = handleError (con s) (SafeError err ''failed to read message from connection'');
               (won, c2) = handleConnectionError_enter c1 (Some err)
           in Next (s\<lparr>con := c2, teardown := (if won then HceLocks else teardown s)\<rparr>)))"

text \<open>
  \<open>handleConnectionError\<close> locks the pending table (line 217) and ranges over the
  entries it finds.
\<close>

definition step_Lock :: "'m live \<Rightarrow> 'm live may" where
  "step_Lock s =
     (case teardown s of
        HceLocks \<Rightarrow> Next (s\<lparr>teardown := HceNotifies (respMap (con s)) 0\<rparr>)
      | _ \<Rightarrow> Blocked)"

text \<open>
  \<open>resp.errCh <- ErrConnectionClosed\<close> (line 219) for the next entry is over when the
  \<open>Send\<close> with that error channel receives it in its \<open>select\<close>.
\<close>

definition step_Notify :: "'m live \<Rightarrow> 'm live may" where
  "step_Notify s =
     (case teardown s of
        HceNotifies entries n \<Rightarrow>
          if n < length entries
          then
            (case receiver_errCh (inflight s) (errCh (snd (entries ! n))) of
               None \<Rightarrow> Blocked
             | Some req \<Rightarrow>
                 Next (s\<lparr>con := emit [close_error_to (entries ! n)] (con s),
                         inflight := set_phase req (Left (GotErr (Some ErrConnectionClosed)))
                                       (inflight s),
                         teardown := HceNotifies entries (Suc n)\<rparr>))
          else Blocked
      | _ \<Rightarrow> Blocked)"

text \<open>
  After the last entry it unlocks the table, starts its two goroutines (lines 221-239)
  and goes to \<open>c.wg.Wait()\<close> in \<open>c.close()\<close>.
\<close>

definition step_Unlock :: "'m live \<Rightarrow> 'm live may" where
  "step_Unlock s =
     (case teardown s of
        HceNotifies entries n \<Rightarrow>
          if n = length entries
          then Next (s\<lparr>con := emit [GoDrainRequests, GoWaitDone] (con s),
                       teardown := HceWaits entries, drainer := DrainSelect\<rparr>)
          else Blocked
      | _ \<Rightarrow> Blocked)"

text \<open>
  \<open>c.wg.Wait()\<close> (line 253) is over when the barrier is open. The goroutine then runs
  the rest of \<open>close\<close>, and \<open>handleConnectionError\<close> starts the closed-handlers.
\<close>

definition step_Release :: "'m live \<Rightarrow> 'm live may" where
  "step_Release s =
     (case teardown s of
        CloseWaits \<Rightarrow>
          if barrier_open (con s)
          then (case close (con s) of
                  Panic \<Rightarrow> Panicked
                | Return (r, c') \<Rightarrow> Next (s\<lparr>con := c', teardown := ClosedByClose\<rparr>))
          else Blocked
      | HceWaits entries \<Rightarrow>
          if barrier_open (con s)
          then (case close (con s) of
                  Panic \<Rightarrow> Panicked
                | Return (r, c') \<Rightarrow>
                    Next (s\<lparr>con := closedHandlers c', teardown := ClosedByHce entries\<rparr>))
          else Blocked
      | _ \<Rightarrow> Blocked)"

text \<open>
  The goroutine of lines 224-234 receives a request that is offered (line 227), sends
  \<open>ErrConnectionClosed\<close> to the call that offered it (line 228), which is over when
  that call receives it in its \<open>select\<close>, and returns when the barrier is open
  (lines 229-230, after the goroutine of lines 236-239).
\<close>

definition step_DrainReceive :: "request \<Rightarrow> 'm live \<Rightarrow> 'm live may" where
  "step_DrainReceive req s =
     (if drainer s = DrainSelect \<and> (req, Queued) \<in> set (inflight s)
      then Next (s\<lparr>drainer := DrainSends req, inflight := set_phase req Selecting (inflight s)\<rparr>)
      else Blocked)"

definition step_DrainSend :: "'m live \<Rightarrow> 'm live may" where
  "step_DrainSend s =
     (case drainer s of
        DrainSends req \<Rightarrow>
          if (req, Selecting) \<in> set (inflight s)
          then Next (s\<lparr>con := emit [ErrChSend (req_errCh req) (Some ErrConnectionClosed)] (con s),
                       inflight := set_phase req (Left (GotErr (Some ErrConnectionClosed)))
                                     (inflight s),
                       drainer := DrainSelect\<rparr>)
          else Blocked
      | _ \<Rightarrow> Blocked)"

definition step_DrainExit :: "'m live \<Rightarrow> 'm live may" where
  "step_DrainExit s =
     (if drainer s = DrainSelect \<and> barrier_open (con s) then Next (s\<lparr>drainer := DrainExited\<rparr>)
      else Blocked)"

text \<open>
  \<open>handleResponse\<close> in its own goroutine. It waits in two places, both in the branch
  of a response with a correlator: at the lock of the pending table (line 599), and at
  \<open>response.replyCh <- message\<close> (line 604) when it found a slot. That send is over
  when the \<open>Send\<close> with this reply channel receives it in its \<open>select\<close>, or when the
  goroutine of lines 364-373 does, which hands the message to the inbound handler;
  with neither, the goroutine has looked the slot up and stays at the send.
\<close>

definition step_Inbound :: "'m codec \<Rightarrow> byte list \<Rightarrow> 'm live \<Rightarrow> 'm live may" where
  "step_Inbound cd rawMessage s =
     (case Unpack cd rawMessage of
        (message, Some err) \<Rightarrow> Next (s\<lparr>con := handleResponse cd (con s) rawMessage\<rparr>)
      | (message, None) \<Rightarrow>
          if \<not> isResponse cd (Some message)
          then Next (s\<lparr>con := handleResponse cd (con s) rawMessage\<rparr>)
          else
            (case requestID cd (Some message) of
               Inl err \<Rightarrow> Next (s\<lparr>con := handleResponse cd (con s) rawMessage\<rparr>)
             | Inr reqID \<Rightarrow>
                 if table_locked (teardown s) then Blocked
                 else
                   (case map_of (respMap (con s)) reqID of
                      None \<Rightarrow> Next (s\<lparr>con := handleResponse cd (con s) rawMessage\<rparr>)
                    | Some response \<Rightarrow>
                        (case receiver_replyCh (inflight s) (replyCh response) of
                           Some req \<Rightarrow>
                             Next (s\<lparr>con := handleResponse cd (con s) rawMessage,
                                     inflight := set_phase req (Left (GotReply message))
                                                   (inflight s)\<rparr>)
                         | None \<Rightarrow>
                             if replyCh response \<in> set (salvage s)
                             then
                               Next (s\<lparr>con := (case InboundMessageHandler (Opts (con s)) of
                                                  Some h \<Rightarrow>
                                                    emit [GoInboundMessageHandler h message]
                                                      (handleResponse cd (con s) rawMessage)
                                                | None \<Rightarrow> handleResponse cd (con s) rawMessage),
                                       salvage := remove1 (replyCh response) (salvage s)\<rparr>)
                             else Next (s\<lparr>con := emit [RespMapLoad reqID] (con s)\<rparr>)))))"

text \<open>The goroutine of lines 364-373 gives up after its second (lines 368-371).\<close>

definition step_SalvageExpires :: "chan \<Rightarrow> 'm live \<Rightarrow> 'm live may" where
  "step_SalvageExpires ch s =
     (if ch \<in> set (salvage s) then Next (s\<lparr>salvage := remove1 ch (salvage s)\<rparr>) else Blocked)"

text \<open>The timeout case of the dispatcher (lines 566-569).\<close>

definition step_DispatcherIdle :: "'m live \<Rightarrow> 'm live may" where
  "step_DispatcherIdle s = Next (s\<lparr>con := snd (readResponseLoop_idle (con s))\<rparr>)"

subsection \<open>Schedules\<close>

datatype 'm act =
    ASend "'m option"
  | AReply "'m option"
  | ATimeout request
  | AReturn request
  | AReceive request
  | AWrite
  | ANil
  | AWriterIdle
  | AWriterDone
  | AClose
  | AReader read
  | ALock
  | ANotify
  | AUnlock
  | ARelease
  | ADrainReceive request
  | ADrainSend
  | ADrainExit
  | AInbound "byte list"
  | ASalvageExpires chan
  | ADispatcherIdle

fun live_step :: "'m codec \<Rightarrow> 'm act \<Rightarrow> 'm live \<Rightarrow> 'm live may" where
  "live_step cd (ASend message) s = step_Send cd message s"
| "live_step cd (AReply message) s = step_Reply cd message s"
| "live_step cd (ATimeout req) s = step_Timeout req s"
| "live_step cd (AReturn req) s = step_Return req s"
| "live_step cd (AReceive req) s = step_Receive req s"
| "live_step cd AWrite s = step_Write s"
| "live_step cd ANil s = step_Nil s"
| "live_step cd AWriterIdle s = step_WriterIdle s"
| "live_step cd AWriterDone s = step_WriterDone s"
| "live_step cd AClose s = step_Close s"
| "live_step cd (AReader rd) s = step_Reader rd s"
| "live_step cd ALock s = step_Lock s"
| "live_step cd ANotify s = step_Notify s"
| "live_step cd AUnlock s = step_Unlock s"
| "live_step cd ARelease s = step_Release s"
| "live_step cd (ADrainReceive req) s = step_DrainReceive req s"
| "live_step cd ADrainSend s = step_DrainSend s"
| "live_step cd ADrainExit s = step_DrainExit s"
| "live_step cd (AInbound rawMessage) s = step_Inbound cd rawMessage s"
| "live_step cd (ASalvageExpires ch) s = step_SalvageExpires ch s"
| "live_step cd ADispatcherIdle s = step_DispatcherIdle s"

text \<open>
  A schedule is a list of steps; it can be run when each step can be taken where the
  ones before leave the goroutines.
\<close>

fun live_run :: "'m codec \<Rightarrow> 'm act list \<Rightarrow> 'm live \<Rightarrow> 'm live may" where
  "live_run cd [] s = Next s"
| "live_run cd (x # xs) s =
     (case live_step cd x s of
        Blocked \<Rightarrow> Blocked
      | Panicked \<Rightarrow> Panicked
      | Next s' \<Rightarrow> live_run cd xs s')"

text \<open>
  A connection as \<open>NewFrom\<close> (or \<open>New\<close> and \<open>Connect\<close>) leaves it: nothing is
  registered, no channel is made, and nothing but the start of the loops is in the trace.
\<close>

definition pristine :: "'m Connection \<Rightarrow> bool" where
  "pristine c =
     (\<not> closing c \<and> \<not> done_closed c \<and> respMap c = [] \<and> nchan c = 0
      \<and> (trace c = [] \<or> trace c = [GoLoops]))"

subsection \<open>What every step keeps\<close>

fun closed_pc :: "teardown_pc \<Rightarrow> bool" where
  "closed_pc ClosedByClose = True"
| "closed_pc (ClosedByHce entries) = True"
| "closed_pc _ = False"

fun past_unlock :: "teardown_pc \<Rightarrow> bool" where
  "past_unlock (HceWaits entries) = True"
| "past_unlock (ClosedByHce entries) = True"
| "past_unlock _ = False"

text \<open>
  The sends of \<open>ErrConnectionClosed\<close> in the trace, by where the teardown stands: in
  the loop, one for each entry served so far, in order; after the loop, they begin with
  one for each entry; in a teardown by \<open>Close\<close>, and before the loop, there is none.
\<close>

fun errors_sent :: "teardown_pc \<Rightarrow> 'm event list \<Rightarrow> bool" where
  "errors_sent (HceNotifies entries n) tr =
     (n \<le> length entries \<and> close_errors tr = map close_error_to (take n entries))"
| "errors_sent (HceWaits entries) tr =
     (take (length entries) (close_errors tr) = map close_error_to entries)"
| "errors_sent (ClosedByHce entries) tr =
     (take (length entries) (close_errors tr) = map close_error_to entries)"
| "errors_sent _ tr = (close_errors tr = [])"

definition chan_below :: "chan \<Rightarrow> nat \<Rightarrow> bool" where
  "chan_below ch n = (case ch of None \<Rightarrow> False | Some k \<Rightarrow> k < n)"

text \<open>A request the writer holds was made on this connection and is no longer offered.\<close>

fun writer_ok :: "writer_pc \<Rightarrow> (request \<times> 'm phase) list \<Rightarrow> nat \<Rightarrow> bool" where
  "writer_ok (WHolds req) cs n = (chan_below (req_errCh req) n \<and> (req, Queued) \<notin> set cs)"
| "writer_ok (WSendsNil req) cs n =
     (chan_below (req_errCh req) n \<and> (req, Queued) \<notin> set cs \<and> req_replyCh req = None)"
| "writer_ok _ cs n = True"

text \<open>
  The closing flag is set exactly when a teardown has started, the done-signal is closed
  exactly when one has finished, and then it has been closed once; the barrier counts
  the calls in flight; each call in flight has its own error channel, made on this
  connection.
\<close>

definition live_inv :: "'m live \<Rightarrow> bool" where
  "live_inv s =
     ((closing (con s) \<longleftrightarrow> teardown s \<noteq> NoTeardown)
      \<and> (done_closed (con s) \<longleftrightarrow> closed_pc (teardown s))
      \<and> count_list (trace (con s)) CloseDoneCh = (if done_closed (con s) then 1 else 0)
      \<and> count_list (trace (con s)) ConnClose \<le> count_list (trace (con s)) CloseDoneCh
      \<and> count_list (trace (con s)) WgAdd
           = count_list (trace (con s)) WgDone + length (inflight s)
      \<and> errors_sent (teardown s) (trace (con s))
      \<and> (drainer s \<noteq> NoDrain \<longrightarrow> past_unlock (teardown s))
      \<and> list_all (\<lambda>(r, q). chan_below (req_errCh r) (nchan (con s))) (inflight s)
      \<and> distinct (map (\<lambda>(r, q). req_errCh r) (inflight s))
      \<and> writer_ok (writer s) (inflight s) (nchan (con s)))"

text \<open>Events that touch neither the barrier nor the teardown.\<close>

fun plain :: "'m event \<Rightarrow> bool" where
  "plain WgAdd = False"
| "plain WgDone = False"
| "plain CloseDoneCh = False"
| "plain ConnClose = False"
| "plain (ErrChSend ch (Some ErrConnectionClosed)) = False"
| "plain _ = True"

section \<open>Basic facts\<close>

lemma string_of_byte_single: "string_of_byte b = [c] \<longleftrightarrow> (of_char b :: nat) < 128 \<and> b = c"
  by (simp add: string_of_byte_def Let_def)

lemma memCodec_simps:
  "Pack memCodec None = Panic"
  "Pack memCodec (Some (mti, stan)) =
     (if mti = [] then Return ([], Some (Foreign ''no MTI'')) else Return (mti @ stan, None))"
  "Unpack memCodec raw =
     (if length raw < 4 then (([], []), Some (Foreign ''short message''))
      else ((take 4 raw, drop 4 raw), None))"
  "GetMTI memCodec (mti, stan) = (mti, None)"
  "GetString memCodec (mti, stan) i =
     (if i = 11 then (stan, None) else ([], Some (Foreign ''no such field'')))"
  by (simp_all add: memCodec_def)

lemma demoConn_simps:
  "Opts demoConn = allHandlers"
  "conn demoConn = Some goodConn"
  "done_closed demoConn = False"
  "writeMessageLength demoConn = Some oneByteLength"
  "respMap demoConn = []"
  "closing demoConn = False"
  "nchan demoConn = 0"
  "trace demoConn = [GoLoops]"
  by (simp_all add: demoConn_def NewFrom_def New_def emit_def)


lemma demoPending_simps:
  "Opts demoPending = allHandlers"
  "conn demoPending = Some goodConn"
  "done_closed demoPending = False"
  "writeMessageLength demoPending = Some oneByteLength"
  "respMap demoPending = [(''000001'', \<lparr>replyCh = Some 4, errCh = Some 5\<rparr>)]"
  "closing demoPending = False"
  "nchan demoPending = 6"
  "trace demoPending = [GoLoops]"
  by (simp_all add: demoPending_def demoConn_simps)

lemma allHandlers_simps:
  "ErrorHandler allHandlers = Some 11"
  "InboundMessageHandler allHandlers = Some 12"
  "PingHandler allHandlers = Some 13"
  "ReadTimeoutHandler allHandlers = Some 14"
  "ConnectionClosedHandlers allHandlers = [15]"
  by (simp_all add: allHandlers_def)

lemma quietDemo_simps:
  "Opts quietDemo = noHandlers"
  "conn quietDemo = Some goodConn"
  "done_closed quietDemo = False"
  "writeMessageLength quietDemo = Some oneByteLength"
  "respMap quietDemo = []"
  "closing quietDemo = False"
  "nchan quietDemo = 0"
  "trace quietDemo = [GoLoops]"
  by (simp_all add: quietDemo_def NewFrom_def New_def emit_def)

lemma noHandlers_simps:
  "ErrorHandler noHandlers = None"
  "InboundMessageHandler noHandlers = None"
  "PingHandler noHandlers = None"
  "ReadTimeoutHandler noHandlers = None"
  "ConnectionClosedHandlers noHandlers = []"
  by (simp_all add: noHandlers_def)

lemma emit_emit: "emit ys (emit xs c) = emit (xs @ ys) c"
  by (simp add: emit_def)

lemma emit_fields [simp]:
  "Opts (emit evs c) = Opts c"
  "conn (emit evs c) = conn c"
  "done_closed (emit evs c) = done_closed c"
  "writeMessageLength (emit evs c) = writeMessageLength c"
  "respMap (emit evs c) = respMap c"
  "closing (emit evs c) = closing c"
  "nchan (emit evs c) = nchan c"
  "trace (emit evs c) = trace c @ evs"
  by (simp_all add: emit_def)

lemma added_emit [simp]: "added c (emit evs c) = evs"
  by (simp add: added_def)

lemma isResponse_third_byte:
  "isResponse cd message \<longleftrightarrow>
     (\<exists>m. message = Some m \<and> 4 \<le> length (fst (GetMTI cd m))
          \<and> fst (GetMTI cd m) ! 2 \<in> {CHR ''1'', CHR ''3'', CHR ''5'', CHR ''7''})"
  by (cases message)
     (auto simp: isResponse_def Let_def string_of_byte_single messageFunctionIndex_def
        messageFunctionRequestResponse_def messageFunctionAdviceResponse_def
        messageFunctionNotificationAcknowledgment_def
        messageFunctionInstructionAcknowledgment_def)

lemma requestID_Inr:
  "requestID cd message = Inr s \<longleftrightarrow>
     (\<exists>m. message = Some m \<and> GetString cd m 11 = (s, None) \<and> s \<noteq> [])"
  by (auto simp: requestID_def split: option.splits prod.splits)

lemma requestID_Inl:
  "(\<exists>e. requestID cd message = Inl e) \<longleftrightarrow>
     (message = None
      \<or> (\<exists>m. message = Some m
              \<and> (snd (GetString cd m 11) \<noteq> None \<or> fst (GetString cd m 11) = [])))"
  by (auto simp: requestID_def split: option.splits prod.splits)

lemma Send_enqueue_closing:
  "closing c \<Longrightarrow>
   Send_enqueue cd c message =
     Return (SendReturned None (Some ErrConnectionClosed), emit [WgAdd, WgDone] c)"
  by (simp add: Send_enqueue_def Let_def emit_emit)

lemma Send_enqueue_pack_failed:
  "\<not> closing c \<Longrightarrow> Pack cd message = Return (packed, Some e) \<Longrightarrow>
   Send_enqueue cd c message =
     Return (SendReturned None (Some (Errorf ''packing message: '' e)), emit [WgAdd, WgDone] c)"
  by (simp add: Send_enqueue_def Let_def emit_emit)

lemma Send_enqueue_header_failed:
  "\<not> closing c \<Longrightarrow> Pack cd message = Return (packed, None) \<Longrightarrow>
   writeMessageLength c = Some wml \<Longrightarrow> wml (int (length packed)) = (header, Some e) \<Longrightarrow>
   Send_enqueue cd c message =
     Return (SendReturned None (Some (Errorf ''writing message header to buffer: '' e)),
             emit [WgAdd, WgDone] c)"
  by (simp add: Send_enqueue_def Let_def emit_emit)

lemma Send_enqueue_requestID_failed:
  "\<not> closing c \<Longrightarrow> Pack cd message = Return (packed, None) \<Longrightarrow>
   writeMessageLength c = Some wml \<Longrightarrow> wml (int (length packed)) = (header, None) \<Longrightarrow>
   requestID cd message = Inl e \<Longrightarrow>
   Send_enqueue cd c message =
     Return (SendReturned None (Some (Errorf ''creating request ID: '' e)),
             emit [WgAdd, WgDone] c)"
  by (simp add: Send_enqueue_def Let_def emit_emit)

lemma Send_enqueue_SendReturned:
  "Send_enqueue cd c message = Return (SendReturned r err, c') \<Longrightarrow> c' = emit [WgAdd, WgDone] c"
  by (auto simp: Send_enqueue_def Let_def emit_emit
           split: if_splits go.splits option.splits prod.splits sum.splits)


lemma Reply_enqueue_pack_failed:
  "\<not> closing c \<Longrightarrow> Pack cd message = Return (packed, Some e) \<Longrightarrow>
   Reply_enqueue cd c message =
     Return (ReplyReturned (Some (Errorf ''packing message: '' e)), emit [WgAdd, WgDone] c)"
  by (simp add: Reply_enqueue_def Let_def emit_emit)

lemma Reply_enqueue_header_failed:
  "\<not> closing c \<Longrightarrow> Pack cd message = Return (packed, None) \<Longrightarrow>
   writeMessageLength c = Some wml \<Longrightarrow> wml (int (length packed)) = (header, Some e) \<Longrightarrow>
   Reply_enqueue cd c message =
     Return (ReplyReturned (Some (Errorf ''writing message header to buffer: '' e)),
             emit [WgAdd, WgDone] c)"
  by (simp add: Reply_enqueue_def Let_def emit_emit)

lemma Reply_enqueue_ReplyReturned:
  "Reply_enqueue cd c message = Return (ReplyReturned err, c') \<Longrightarrow> c' = emit [WgAdd, WgDone] c"
  by (auto simp: Reply_enqueue_def Let_def emit_emit
           split: if_splits go.splits option.splits prod.splits)

lemma Send_enqueue_requestID_Inl:
  assumes "requestID cd message = Inl e" and "Pack cd message = Return pk"
    and "writeMessageLength c = Some wml"
  shows "\<exists>err. Send_enqueue cd c message =
           Return (SendReturned None (Some err), emit [WgAdd, WgDone] c)"
proof (cases "closing c")
  case True
  then show ?thesis by (simp add: Send_enqueue_closing)
next
  case False
  obtain packed perr where pk: "pk = (packed, perr)" by (cases pk)
  obtain header werr where w: "wml (int (length packed)) = (header, werr)"
    by (cases "wml (int (length packed))")
  show ?thesis
  proof (cases perr)
    case (Some e1)
    with False assms pk show ?thesis by (simp add: Send_enqueue_pack_failed)
  next
    case None
    show ?thesis
    proof (cases werr)
      case (Some e2)
      with False assms pk None w show ?thesis by (simp add: Send_enqueue_header_failed)
    next
      case None': None
      with False assms pk None w show ?thesis by (simp add: Send_enqueue_requestID_failed)
    qed
  qed
qed

lemma handleError_eq:
  "handleError c err =
     emit (case ErrorHandler (Opts c) of None \<Rightarrow> [] | Some h \<Rightarrow> [GoErrorHandler h err]) c"
  by (simp add: handleError_def emit_def split: option.splits)

lemma close_Return:
  "\<not> done_closed c \<Longrightarrow>
   close c =
     Return (case conn c of None \<Rightarrow> None
             | Some t \<Rightarrow> map_option (Errorf ''closing connection: '') (conn_Close t),
             emit (WgWait # CloseDoneCh # (case conn c of None \<Rightarrow> [] | Some t \<Rightarrow> [ConnClose]))
               (c\<lparr>done_closed := True\<rparr>))"
  by (auto simp: close_def emit_def Let_def split: option.splits)


lemma handleConnectionError_Return:
  "err \<noteq> None \<Longrightarrow> \<not> closing c \<Longrightarrow> \<not> done_closed c \<Longrightarrow>
   handleConnectionError c err =
     Return (emit (map (\<lambda>(k, resp). ErrChSend (errCh resp) (Some ErrConnectionClosed)) (respMap c)
                   @ [GoDrainRequests, GoWaitDone, WgWait, CloseDoneCh]
                   @ (case conn c of None \<Rightarrow> [] | Some t \<Rightarrow> [ConnClose])
                   @ map GoConnectionClosedHandler (ConnectionClosedHandlers (Opts c)))
               (c\<lparr>closing := True, done_closed := True\<rparr>))"
  by (auto simp: handleConnectionError_def close_Return emit_def Let_def split: option.splits)

lemma handleConnectionError_noop:
  "err = None \<or> closing c \<Longrightarrow> handleConnectionError c err = Return c"
  by (auto simp: handleConnectionError_def)






lemma Send_enqueue_after_emit:
  "Send_enqueue cd c message = Return (step, c1) \<Longrightarrow>
   \<exists>c1'. Send_enqueue cd (emit evs c) message = Return (step, c1')"
  by (auto simp: Send_enqueue_def Let_def
           split: if_splits go.splits option.splits prod.splits sum.splits)

lemma filter_is_RespMap_handleError [simp]:
  "filter is_RespMap (case h of None \<Rightarrow> [] | Some x \<Rightarrow> [GoErrorHandler x err]) = []"
  by (cases h) simp_all

section \<open>What every call keeps\<close>

lemma count_list_map_0: "(\<And>x. f x \<noteq> e) \<Longrightarrow> count_list (map f xs) e = 0"
  by (induction xs) auto

lemma teardown_inv_emit:
  "teardown_inv c \<Longrightarrow> count_list evs CloseDoneCh = 0 \<Longrightarrow> count_list evs ConnClose = 0 \<Longrightarrow>
   teardown_inv (emit evs c)"
  by (simp add: teardown_inv_def)

lemma teardown_inv_not_closing: "teardown_inv c \<Longrightarrow> \<not> closing c \<Longrightarrow> \<not> done_closed c"
  by (auto simp: teardown_inv_def)

lemma fresh_inv: "fresh c \<Longrightarrow> teardown_inv c"
  by (simp add: fresh_def teardown_inv_def)

lemma fresh_New: "fresh (New opts mlWriter)" "fresh (NewFrom t opts mlWriter)"
  by (simp_all add: fresh_def New_def NewFrom_def emit_def)

lemma kept_emit:
  "teardown_inv c \<Longrightarrow> count_list evs CloseDoneCh = 0 \<Longrightarrow> count_list evs ConnClose = 0 \<Longrightarrow>
   kept c (emit evs c)"
  by (simp add: kept_def teardown_inv_emit)

lemma kept_trans: "kept a b \<Longrightarrow> kept b c \<Longrightarrow> kept a c"
  by (simp add: kept_def)

lemma Close_kept:
  assumes "teardown_inv c" and "Close c = Return (r, c')"
  shows "kept c c'"
proof (cases "closing c")
  case True
  with assms show ?thesis by (simp add: Close_def kept_def)
next
  case False
  with assms(1) have "\<not> done_closed c" by (rule teardown_inv_not_closing)
  with False assms show ?thesis
    by (auto simp: Close_def close_Return teardown_inv_def kept_def split: option.splits)
qed

lemma Close_no_Panic: "teardown_inv c \<Longrightarrow> Close c \<noteq> Panic"
  by (auto simp: Close_def close_Return teardown_inv_def)

lemma handleConnectionError_kept:
  assumes "teardown_inv c" and "handleConnectionError c err = Return c'"
  shows "kept c c'"
proof (cases "err = None \<or> closing c")
  case True
  with assms show ?thesis by (simp add: handleConnectionError_noop kept_def)
next
  case False
  with assms(1) have nd: "\<not> done_closed c" by (simp add: teardown_inv_not_closing)
  have z1: "count_list (map (\<lambda>(k, resp). ErrChSend (errCh resp) (Some ErrConnectionClosed))
                         (respMap c)) e = 0"
    if "e = CloseDoneCh \<or> e = ConnClose" for e :: "'a event"
    using that by (intro count_list_map_0) auto
  have z2: "count_list (map GoConnectionClosedHandler (ConnectionClosedHandlers (Opts c))) e = 0"
    if "e = CloseDoneCh \<or> e = ConnClose" for e :: "'a event"
    using that by (intro count_list_map_0) auto
  from False nd assms show ?thesis
    by (auto simp: handleConnectionError_Return teardown_inv_def kept_def z1 z2
             split: option.splits)
qed

lemma handleConnectionError_no_Panic:
  "teardown_inv c \<Longrightarrow> handleConnectionError c err \<noteq> Panic"
  by (cases "err = None \<or> closing c")
     (auto simp: handleConnectionError_noop handleConnectionError_Return teardown_inv_def)

lemma handleError_kept: "teardown_inv c \<Longrightarrow> kept c (handleError c err)"
  unfolding handleError_eq by (rule kept_emit) (simp_all split: option.splits)

lemma Send_enqueue_kept:
  "teardown_inv c \<Longrightarrow> Send_enqueue cd c message = Return (r, c') \<Longrightarrow> kept c c'"
  by (auto simp: Send_enqueue_def Let_def teardown_inv_def kept_def
           split: if_splits go.splits option.splits prod.splits sum.splits)

lemma Reply_enqueue_kept:
  "teardown_inv c \<Longrightarrow> Reply_enqueue cd c message = Return (r, c') \<Longrightarrow> kept c c'"
  by (auto simp: Reply_enqueue_def Let_def teardown_inv_def kept_def
           split: if_splits go.splits option.splits prod.splits)

lemma Send_wait_kept: "teardown_inv c \<Longrightarrow> kept c (snd (Send_wait c req w))"
  by (auto simp: Send_wait_def Let_def teardown_inv_def kept_def split: wait.splits)

lemma Reply_wait_kept: "teardown_inv c \<Longrightarrow> kept c (snd (Reply_wait c req w))"
  by (auto simp: Reply_wait_def Let_def teardown_inv_def kept_def split: reply_wait.splits)

lemma writeLoop_idle_kept: "teardown_inv c \<Longrightarrow> kept c (snd (writeLoop_idle c))"
  by (auto simp: writeLoop_idle_def teardown_inv_def kept_def split: option.splits)

lemma readResponseLoop_idle_kept: "teardown_inv c \<Longrightarrow> kept c (snd (readResponseLoop_idle c))"
  by (auto simp: readResponseLoop_idle_def teardown_inv_def kept_def split: option.splits)

lemma handleResponse_kept: "teardown_inv c \<Longrightarrow> kept c (handleResponse cd c raw)"
  by (auto simp: handleResponse_def Let_def handleError_eq teardown_inv_def kept_def
           split: option.splits prod.splits sum.splits)

lemma drainRequests_turn_kept: "teardown_inv c \<Longrightarrow> kept c (drainRequests_turn c req)"
  unfolding drainRequests_turn_def by (rule kept_emit) simp_all

lemma readLoop_turn_kept:
  assumes "teardown_inv c" and "readLoop_turn c rd = Return (l, c')"
  shows "kept c c'"
proof (cases rd)
  case (ReadLengthFailed err)
  let ?c1 = "handleError c (SafeError err ''failed to read message length'')"
  have k: "kept c ?c1" using assms(1) by (rule handleError_kept)
  from assms(2) ReadLengthFailed have "handleConnectionError ?c1 (Some err) = Return c'"
    by (auto simp: readLoop_turn_def split: go.splits)
  moreover from k have "teardown_inv ?c1" by (simp add: kept_def)
  ultimately have "kept ?c1 c'" by (rule handleConnectionError_kept [rotated])
  with k show ?thesis by (rule kept_trans)
next
  case (ReadMessageFailed err)
  let ?c1 = "handleError c (SafeError err ''failed to read message from connection'')"
  have k: "kept c ?c1" using assms(1) by (rule handleError_kept)
  from assms(2) ReadMessageFailed have "handleConnectionError ?c1 (Some err) = Return c'"
    by (auto simp: readLoop_turn_def split: go.splits)
  moreover from k have "teardown_inv ?c1" by (simp add: kept_def)
  ultimately have "kept ?c1 c'" by (rule handleConnectionError_kept [rotated])
  with k show ?thesis by (rule kept_trans)
next
  case (ReadMessage raw)
  with assms show ?thesis
    by (auto simp: readLoop_turn_def intro: kept_emit)
qed

lemma writeLoop_request_kept:
  assumes "teardown_inv c" and "writeLoop_request c req = Return (l, c')"
  shows "kept c c'"
proof -
  define c1 where "c1 = (if req_replyCh req \<noteq> None
                then
                  let resp = \<lparr>replyCh = req_replyCh req, errCh = req_errCh req\<rparr>
                  in emit [RespMapStore (req_requestID req) resp]
                       (c\<lparr>respMap := AList.update (req_requestID req) resp (respMap c)\<rparr>)
                else c)"
  have k1: "kept c c1"
    using assms(1) by (auto simp: c1_def Let_def teardown_inv_def kept_def)
  obtain t where t: "conn c1 = Some t"
    using assms(2) unfolding writeLoop_request_def c1_def [symmetric]
    by (cases "conn c1") (auto simp: Let_def)
  define c2 where "c2 = emit [ConnWrite (req_rawMessage req)] c1"
  have "kept c1 c2"
    unfolding c2_def using k1 by (intro kept_emit) (auto simp: kept_def)
  with k1 have k2: "kept c c2" by (rule kept_trans)
  show ?thesis
  proof (cases "conn_Write t (req_rawMessage req)")
    case None
    with assms(2) t have "c' = (if req_replyCh req = None
                                then emit [ErrChSend (req_errCh req) None] c2 else c2)"
      unfolding writeLoop_request_def c1_def [symmetric]
      by (auto simp: Let_def c2_def split: if_splits)
    moreover have "kept c2 (emit [ErrChSend (req_errCh req) None] c2)"
      using k2 by (intro kept_emit) (auto simp: kept_def)
    ultimately show ?thesis using k2 by (auto intro: kept_trans)
  next
    case (Some err)
    let ?c3 = "handleError c2 (SafeError err ''failed to write message into connection'')"
    have "kept c2 ?c3" using k2 by (intro handleError_kept) (simp add: kept_def)
    with k2 have k3: "kept c ?c3" by (rule kept_trans)
    from assms(2) t Some have "handleConnectionError ?c3 (Some err) = Return c'"
      unfolding writeLoop_request_def c1_def [symmetric]
      by (auto simp: Let_def c2_def split: go.splits)
    moreover from k3 have "teardown_inv ?c3" by (simp add: kept_def)
    ultimately have "kept ?c3 c'" by (rule handleConnectionError_kept [rotated])
    with k3 show ?thesis by (rule kept_trans)
  qed
qed

lemma exec_kept:
  assumes i: "teardown_inv c" and e: "exec cd x c = Return c'"
  shows "kept c c'"
proof (cases x)
  case CallClose
  with i e show ?thesis
    by (cases "Close c") (auto dest: Close_kept)
next
  case (CallSend m)
  with i e show ?thesis
    by (cases "Send_enqueue cd c m") (auto dest: Send_enqueue_kept)
next
  case (CallSendWait req w)
  with i e show ?thesis by (auto simp: Send_wait_kept)
next
  case (CallReply m)
  with i e show ?thesis
    by (cases "Reply_enqueue cd c m") (auto dest: Reply_enqueue_kept)
next
  case (CallReplyWait req w)
  with i e show ?thesis by (auto simp: Reply_wait_kept)
next
  case (WriterRequest req)
  with i e show ?thesis
    by (cases "writeLoop_request c req") (auto dest: writeLoop_request_kept)
next
  case WriterIdle
  with i e show ?thesis by (auto simp: writeLoop_idle_kept)
next
  case (ReaderTurn rd)
  with i e show ?thesis
    by (cases "readLoop_turn c rd") (auto dest: readLoop_turn_kept)
next
  case DispatcherIdle
  with i e show ?thesis by (auto simp: readResponseLoop_idle_kept)
next
  case (Inbound raw)
  with i e show ?thesis by (auto simp: handleResponse_kept)
next
  case (DrainRequest req)
  with i e show ?thesis by (auto simp: drainRequests_turn_kept)
qed

lemma run_kept: "teardown_inv c \<Longrightarrow> run cd xs c = Return c' \<Longrightarrow> kept c c'"
proof (induction xs arbitrary: c)
  case Nil
  then show ?case by (simp add: kept_def)
next
  case (Cons x xs)
  from Cons.prems(2) obtain c1 where 1: "exec cd x c = Return c1" and 2: "run cd xs c1 = Return c'"
    by (auto split: go.splits)
  from Cons.prems(1) 1 have k: "kept c c1" by (rule exec_kept)
  then have "teardown_inv c1" by (simp add: kept_def)
  from Cons.IH [OF this 2] k show ?case by (rule kept_trans [rotated])
qed

lemma run_append:
  "run cd (xs @ ys) c = (case run cd xs c of Panic \<Rightarrow> Panic | Return c' \<Rightarrow> run cd ys c')"
  by (induction xs arbitrary: c) (auto split: go.splits)

lemma run_Close_returns:
  "teardown_inv c \<Longrightarrow> \<exists>c'. run cd (replicate n CallClose) c = Return c'"
proof (induction n arbitrary: c)
  case 0
  then show ?case by simp
next
  case (Suc n)
  from Suc.prems obtain r c1 where c: "Close c = Return (r, c1)"
    using Close_no_Panic [of c] by (cases "Close c") auto
  with Suc.prems have "teardown_inv c1"
    by (auto dest: Close_kept simp: kept_def)
  from Suc.IH [OF this] c show ?case by simp
qed



lemma added_emit_same_trace [simp]: "trace c1 = trace c \<Longrightarrow> added c (emit evs c1) = evs"
  by (simp add: added_def)

lemma Close_Return:
  "\<not> closing c \<Longrightarrow> \<not> done_closed c \<Longrightarrow>
   Close c =
     Return (case conn c of None \<Rightarrow> None
             | Some t \<Rightarrow> map_option (Errorf ''closing connection: '') (conn_Close t),
             emit (WgWait # CloseDoneCh # (case conn c of None \<Rightarrow> [] | Some t \<Rightarrow> [ConnClose]))
               (c\<lparr>closing := True, done_closed := True\<rparr>))"
  by (simp add: Close_def close_Return emit_def)

lemma Close_closing: "closing c \<Longrightarrow> Close c = Return (None, c)"
  by (simp add: Close_def)



lemma fresh_demoPending: "fresh demoPending"
  by (simp add: fresh_def demoPending_simps)

lemma Close_demoPending: "Close demoPending = Return (None, closedPending)"
  by (simp add: Close_Return demoPending_simps closedPending_def goodConn_def)


lemma closedPending_simps:
  "closing closedPending"
  "done_closed closedPending"
  "respMap closedPending = [(''000001'', \<lparr>replyCh = Some 4, errCh = Some 5\<rparr>)]"
  "trace closedPending = [GoLoops, WgWait, CloseDoneCh, ConnClose]"
  by (simp_all add: closedPending_def demoPending_simps)

lemma failedPending_simps:
  "closing failedPending"
  "done_closed failedPending"
  "trace failedPending =
     [GoLoops, ErrChSend (Some 5) (Some ErrConnectionClosed), GoDrainRequests, GoWaitDone,
      WgWait, CloseDoneCh, ConnClose, GoConnectionClosedHandler 15]"
  by (simp_all add: failedPending_def demoPending_simps)

section \<open>The unpack error\<close>

text \<open>
  C10 as stated does not hold for every \<open>ErrUnpack\<close> value: with \<open>Err\<close> nil,
  \<open>Error()\<close> panics and \<open>Unwrap()\<close> returns nil.
\<close>

theorem ErrUnpack_nil_Err_counterexample:
  "Error (ErrUnpack None ''0810xx'') = Panic \<and> Unwrap (ErrUnpack None ''0810xx'') = None"
  by simp

text \<open>
  C10, as the code has it. For an \<open>ErrUnpack\<close> value whose \<open>Err\<close> is set, \<open>Error()\<close>
  is what \<open>Error()\<close> of the wrapped error is (for an error of the codec, its message),
  whatever the raw bytes are, and \<open>Unwrap()\<close> returns the wrapped error. Hence the
  loops of \<open>errors.Is\<close> and \<open>errors.As\<close>, when the value itself is not what they look
  for, go on with the wrapped error and answer what they answer for it.
\<close>

theorem ErrUnpack_Error_Unwrap:
  "Error (ErrUnpack (Some u) raw) = Error u
   \<and> Error (ErrUnpack (Some (Foreign s)) raw) = Return s
   \<and> Error (ErrUnpack (Some u) raw) = Error (ErrUnpack (Some u) raw')
   \<and> Unwrap (ErrUnpack (Some u) raw) = Some u
   \<and> errors_Is same (ErrUnpack (Some u) raw) target
       = (same (ErrUnpack (Some u) raw) target \<or> errors_Is same u target)
   \<and> errors_As (ErrUnpack (Some u) raw) ty
       = (if ty (ErrUnpack (Some u) raw) then Some (ErrUnpack (Some u) raw)
          else errors_As u ty)"
proof -
  have u: "Unwrap (ErrUnpack (Some u) raw) = Some u" by simp
  have i: "errors_Is same (ErrUnpack (Some u) raw) target
             = (same (ErrUnpack (Some u) raw) target \<or> errors_Is same u target)"
    by (subst errors_Is.simps) (simp add: u)
  have a: "errors_As (ErrUnpack (Some u) raw) ty
             = (if ty (ErrUnpack (Some u) raw) then Some (ErrUnpack (Some u) raw)
                else errors_As u ty)"
    by (subst errors_As.simps) (simp add: u)
  from u i a show ?thesis by simp
qed

text \<open>
  Unpack errors around two codec errors with different messages and around the
  closed-connection sentinel: each reports the message of what it wraps, and
  \<open>errors.Is\<close> (with equality of values standing for \<open>==\<close>) finds the sentinel through
  the wrapper, as \<open>errors.As\<close> finds a timeout inside a wrapped \<open>SafeError\<close>.
\<close>

theorem ErrUnpack_Error_Unwrap_witness:
  "Error (ErrUnpack (Some (Foreign ''bad bitmap'')) ''0810xx'') = Return ''bad bitmap''
   \<and> Error (ErrUnpack (Some (Foreign ''short read'')) ''0810xx'') = Return ''short read''
   \<and> Error (ErrUnpack (Some ErrConnectionClosed) ''0810xx'') = Return ''connection closed''
   \<and> Unwrap (ErrUnpack (Some (Foreign ''bad bitmap'')) ''0810xx'') = Some (Foreign ''bad bitmap'')
   \<and> errors_Is (=) (ErrUnpack (Some ErrConnectionClosed) ''0810xx'') ErrConnectionClosed
   \<and> \<not> errors_Is (=) (ErrUnpack (Some ErrConnectionClosed) ''0810xx'') ErrSendTimeout
   \<and> errors_As (ErrUnpack (Some (SafeError ErrSendTimeout ''late'')) ''0810xx'')
        (\<lambda>e. e = ErrSendTimeout) = Some ErrSendTimeout"
proof -
  note a = ErrUnpack_Error_Unwrap [of "Foreign ''bad bitmap''" "''0810xx''" "''bad bitmap''" "[]"
             "(=)" ErrConnectionClosed "\<lambda>e. e = ErrSendTimeout"]
  note b = ErrUnpack_Error_Unwrap [of "Foreign ''short read''" "''0810xx''" "''short read''" "[]"
             "(=)" ErrConnectionClosed "\<lambda>e. e = ErrSendTimeout"]
  note c = ErrUnpack_Error_Unwrap [of ErrConnectionClosed "''0810xx''" "[]" "[]"
             "(=)" ErrConnectionClosed "\<lambda>e. e = ErrSendTimeout"]
  note d = ErrUnpack_Error_Unwrap [of ErrConnectionClosed "''0810xx''" "[]" "[]"
             "(=)" ErrSendTimeout "\<lambda>e. e = ErrSendTimeout"]
  note e = ErrUnpack_Error_Unwrap [of "SafeError ErrSendTimeout ''late''" "''0810xx''" "[]" "[]"
             "(=)" ErrConnectionClosed "\<lambda>e. e = ErrSendTimeout"]
  have i1: "errors_Is (=) ErrConnectionClosed ErrConnectionClosed"
    by (subst errors_Is.simps) simp
  have i2: "\<not> errors_Is (=) ErrConnectionClosed ErrSendTimeout"
    by (subst errors_Is.simps) simp
  have a1: "errors_As (SafeError ErrSendTimeout ''late'') (\<lambda>e. e = ErrSendTimeout)
              = Some ErrSendTimeout"
    by (subst errors_As.simps) simp
  from a b c have 1: "Error (ErrUnpack (Some (Foreign ''bad bitmap'')) ''0810xx'') = Return ''bad bitmap''"
    and 2: "Error (ErrUnpack (Some (Foreign ''short read'')) ''0810xx'') = Return ''short read''"
    and 3: "Error (ErrUnpack (Some ErrConnectionClosed) ''0810xx'') = Return ''connection closed''"
    and 4: "Unwrap (ErrUnpack (Some (Foreign ''bad bitmap'')) ''0810xx'') = Some (Foreign ''bad bitmap'')"
    by simp_all
  from c i1 have 5: "errors_Is (=) (ErrUnpack (Some ErrConnectionClosed) ''0810xx'') ErrConnectionClosed"
    by blast
  from d i2 have 6: "\<not> errors_Is (=) (ErrUnpack (Some ErrConnectionClosed) ''0810xx'') ErrSendTimeout"
    by simp
  from e a1 have 7: "errors_As (ErrUnpack (Some (SafeError ErrSendTimeout ''late'')) ''0810xx'')
        (\<lambda>e. e = ErrSendTimeout) = Some ErrSendTimeout"
    by simp
  from 1 2 3 4 5 6 7 show ?thesis by blast
qed
section \<open>Response classification\<close>

text \<open>
  C3. \<open>isResponse\<close> answers true exactly for a message that is present, whose MTI
  has at least four bytes and whose third byte is one of 1, 3, 5, 7. A message that
  unpacked and does not satisfy this takes the unsolicited branch of
  \<open>handleResponse\<close>: the inbound handler if one is set, nothing otherwise.
\<close>

theorem isResponse_iff:
  "(isResponse cd message \<longleftrightarrow>
      (\<exists>m. message = Some m \<and> 4 \<le> length (fst (GetMTI cd m))
           \<and> fst (GetMTI cd m) ! 2 \<in> {CHR ''1'', CHR ''3'', CHR ''5'', CHR ''7''}))
   \<and> (Unpack cd rawMessage = (m, None)
        \<and> \<not> (4 \<le> length (fst (GetMTI cd m))
              \<and> fst (GetMTI cd m) ! 2 \<in> {CHR ''1'', CHR ''3'', CHR ''5'', CHR ''7''})
      \<longrightarrow> handleResponse cd c rawMessage =
            (case InboundMessageHandler (Opts c) of
               Some h \<Rightarrow> emit [GoInboundMessageHandler h m] c
             | None \<Rightarrow> c))"
proof (intro conjI impI)
  show "isResponse cd message \<longleftrightarrow>
      (\<exists>m. message = Some m \<and> 4 \<le> length (fst (GetMTI cd m))
           \<and> fst (GetMTI cd m) ! 2 \<in> {CHR ''1'', CHR ''3'', CHR ''5'', CHR ''7''})"
    by (rule isResponse_third_byte)
next
  assume a: "Unpack cd rawMessage = (m, None)
        \<and> \<not> (4 \<le> length (fst (GetMTI cd m))
              \<and> fst (GetMTI cd m) ! 2 \<in> {CHR ''1'', CHR ''3'', CHR ''5'', CHR ''7''})"
  then have "\<not> isResponse cd (Some m)"
    by (simp add: isResponse_third_byte)
  with a show "handleResponse cd c rawMessage =
            (case InboundMessageHandler (Opts c) of
               Some h \<Rightarrow> emit [GoInboundMessageHandler h m] c
             | None \<Rightarrow> c)"
    by (simp add: handleResponse_def)
qed

text \<open>
  The classification on four messages of the small codec, and the routing of an
  unpacked 0800 message to the inbound handler.
\<close>

theorem isResponse_iff_witness:
  "isResponse memCodec (Some (''0810'', ''000001''))
   \<and> \<not> isResponse memCodec (Some (''0800'', ''000001''))
   \<and> \<not> isResponse memCodec (Some (''081'', ''000001''))
   \<and> \<not> isResponse memCodec None
   \<and> Unpack memCodec ''0800000001'' = ((''0800'', ''000001''), None)
   \<and> handleResponse memCodec demoPending ''0800000001''
       = emit [GoInboundMessageHandler 12 (''0800'', ''000001'')] demoPending"
proof -
  have u: "Unpack memCodec ''0800000001'' = ((''0800'', ''000001''), None)"
    by (simp add: memCodec_simps)
  have h: "InboundMessageHandler (Opts demoPending) = Some 12"
    by (simp add: demoPending_def demoConn_def NewFrom_def New_def emit_def allHandlers_def)
  have 1: "isResponse memCodec (Some (''0810'', ''000001''))"
    using isResponse_iff [of memCodec "Some (''0810'', ''000001'')" "[]" "([], [])" demoPending]
    by (simp add: memCodec_simps)
  have 2: "\<not> isResponse memCodec (Some (''0800'', ''000001''))"
    using isResponse_iff [of memCodec "Some (''0800'', ''000001'')" "[]" "([], [])" demoPending]
    by (simp add: memCodec_simps)
  have 3: "\<not> isResponse memCodec (Some (''081'', ''000001''))"
    using isResponse_iff [of memCodec "Some (''081'', ''000001'')" "[]" "([], [])" demoPending]
    by (simp add: memCodec_simps)
  have 4: "\<not> isResponse memCodec None"
    using isResponse_iff [of memCodec None "[]" "([], [])" demoPending]
    by simp
  have 5: "handleResponse memCodec demoPending ''0800000001''
       = emit [GoInboundMessageHandler 12 (''0800'', ''000001'')] demoPending"
    using isResponse_iff [of memCodec None "''0800000001''" "(''0800'', ''000001'')" demoPending] u h
    by (simp add: memCodec_simps)
  from 1 2 3 4 5 u show ?thesis by simp
qed

section \<open>The correlator\<close>

text \<open>
  C4 as stated does not hold for a nil message: \<open>requestID\<close> answers the error
  "message required", but \<open>Send\<close> calls \<open>message.Pack()\<close> (line 322) before
  \<open>requestID\<close> (line 339), and \<open>Pack\<close> on a nil message panics: \<open>Send\<close> does not
  return.
\<close>

theorem Send_nil_message_counterexample:
  "requestID memCodec None = Inl (ErrorsNew ''message required'')
   \<and> \<not> closing demoConn
   \<and> Pack memCodec None = Panic
   \<and> Send_enqueue memCodec demoConn None = Panic"
  by (simp add: requestID_def memCodec_simps demoConn_simps Send_enqueue_def Let_def)

text \<open>
  C4, as the code has it. \<open>requestID\<close> returns the string of field 11 when the message
  is present, the read succeeds and the string is not empty, and an error in exactly the
  three other cases. When it fails for a present message given to \<open>Send\<close> (whose
  \<open>Pack\<close> returns, with a framer set), \<open>Send\<close> returns an error having only entered
  and left the barrier: nothing was put on the request queue; when packing and framing
  succeeded, that error is the correlator's error, wrapped. For a nil message on a
  connection that is not closing, \<open>Send\<close> is whatever \<open>Pack\<close> on nil is: it panics
  when that panics, and never reaches \<open>requestID\<close>.
\<close>

theorem requestID_field_11_present_message:
  "(requestID cd message = Inr stan \<longleftrightarrow>
      (\<exists>m. message = Some m \<and> GetString cd m 11 = (stan, None) \<and> stan \<noteq> []))
   \<and> ((\<exists>e. requestID cd message = Inl e) \<longleftrightarrow>
        (message = None
         \<or> (\<exists>m. message = Some m
                 \<and> (snd (GetString cd m 11) \<noteq> None \<or> fst (GetString cd m 11) = []))))
   \<and> (requestID cd (Some m) = Inl e \<and> Pack cd (Some m) = Return pk
        \<and> writeMessageLength c = Some wml
      \<longrightarrow> (\<exists>err. Send_enqueue cd c (Some m) =
                   Return (SendReturned None (Some err), emit [WgAdd, WgDone] c)))
   \<and> (requestID cd (Some m) = Inl e \<and> \<not> closing c \<and> Pack cd (Some m) = Return (packed, None)
        \<and> writeMessageLength c = Some wml \<and> wml (int (length packed)) = (header, None)
      \<longrightarrow> Send_enqueue cd c (Some m) =
            Return (SendReturned None (Some (Errorf ''creating request ID: '' e)),
                    emit [WgAdd, WgDone] c))
   \<and> (\<not> closing c \<and> Pack cd None = Panic \<longrightarrow> Send_enqueue cd c None = Panic)"
proof -
  have "Send_enqueue cd c None = Panic" if "\<not> closing c" "Pack cd None = Panic"
    using that by (simp add: Send_enqueue_def Let_def)
  then show ?thesis
    using requestID_Inr [of cd message stan] requestID_Inl [of cd message]
      Send_enqueue_requestID_Inl [of cd "Some m" e pk c wml]
      Send_enqueue_requestID_failed [of c cd "Some m" packed wml header e]
    by blast
qed

text \<open>
  A request whose field 11 is empty: \<open>requestID\<close> fails and \<open>Send\<close> returns that error
  without a request on the queue; with field 11 set, \<open>requestID\<close> returns it.
\<close>

theorem requestID_field_11_present_message_witness:
  "requestID memCodec (Some (''0800'', ''000001'')) = Inr ''000001''
   \<and> requestID memCodec (Some (''0800'', [])) = Inl (ErrorsNew ''STAN is missing'')
   \<and> requestID memCodec None = Inl (ErrorsNew ''message required'')
   \<and> Pack memCodec None = Panic
   \<and> Send_enqueue memCodec demoConn None = Panic
   \<and> \<not> closing demoConn
   \<and> Pack memCodec (Some (''0800'', [])) = Return (''0800'', None)
   \<and> writeMessageLength demoConn = Some oneByteLength
   \<and> oneByteLength (int (length ''0800'')) = ([char_of (4::int)], None)
   \<and> Send_enqueue memCodec demoConn (Some (''0800'', [])) =
        Return (SendReturned None
                  (Some (Errorf ''creating request ID: '' (ErrorsNew ''STAN is missing''))),
                emit [WgAdd, WgDone] demoConn)"
proof -
  note t = requestID_field_11_present_message
             [of memCodec "Some (''0800'', ''000001'')" "''000001''" "(''0800'', [])"
                 "ErrorsNew ''STAN is missing''" "(''0800'', None)" demoConn oneByteLength
                 "''0800''" "[char_of (4::int)]"]
  have nc: "\<not> closing demoConn" and wl: "writeMessageLength demoConn = Some oneByteLength"
    by (simp_all add: demoConn_simps)
  have g: "GetString memCodec (''0800'', ''000001'') 11 = (''000001'', None)"
    by (simp add: memCodec_simps)
  from t g have 1: "requestID memCodec (Some (''0800'', ''000001'')) = Inr ''000001''"
    by blast
  have 2: "requestID memCodec (Some (''0800'', [])) = Inl (ErrorsNew ''STAN is missing'')"
    by (simp add: requestID_def memCodec_simps)
  have 3: "requestID memCodec None = Inl (ErrorsNew ''message required'')"
    by (simp add: requestID_def)
  have 4: "Pack memCodec (Some (''0800'', [])) = Return (''0800'', None)"
    by (simp add: memCodec_simps)
  have 5: "oneByteLength (int (length ''0800'')) = ([char_of (4::int)], None)"
    by (simp add: oneByteLength_def)
  from t nc wl 2 4 5 have 6: "Send_enqueue memCodec demoConn (Some (''0800'', [])) =
        Return (SendReturned None
                  (Some (Errorf ''creating request ID: '' (ErrorsNew ''STAN is missing''))),
                emit [WgAdd, WgDone] demoConn)"
    by blast
  have 7: "Pack memCodec None = Panic" by (simp add: memCodec_simps)
  from t nc 7 have 8: "Send_enqueue memCodec demoConn None = Panic" by blast
  from 1 2 3 4 5 6 7 8 nc wl show ?thesis by blast
qed
section \<open>Pre-flight errors of Send and Reply\<close>

text \<open>
  C6. On a connection that is not closing, a failure of \<open>Pack\<close>, of the length header,
  or (for \<open>Send\<close>) of the correlator makes \<open>Send\<close> and \<open>Reply\<close> return that error,
  wrapped, having only entered and left the barrier. Whenever \<open>Send\<close> or \<open>Reply\<close>
  returns at this stage, the call added no request to the queue and the pending table
  is unchanged.
\<close>

theorem preflight_errors_returned:
  "(\<not> closing c \<and> Pack cd message = Return (packed, Some e)
      \<longrightarrow> Send_enqueue cd c message =
            Return (SendReturned None (Some (Errorf ''packing message: '' e)),
                    emit [WgAdd, WgDone] c)
          \<and> Reply_enqueue cd c message =
            Return (ReplyReturned (Some (Errorf ''packing message: '' e)),
                    emit [WgAdd, WgDone] c))
   \<and> (\<not> closing c \<and> Pack cd message = Return (packed, None)
        \<and> writeMessageLength c = Some wml \<and> wml (int (length packed)) = (header, Some e)
      \<longrightarrow> Send_enqueue cd c message =
            Return (SendReturned None (Some (Errorf ''writing message header to buffer: '' e)),
                    emit [WgAdd, WgDone] c)
          \<and> Reply_enqueue cd c message =
            Return (ReplyReturned (Some (Errorf ''writing message header to buffer: '' e)),
                    emit [WgAdd, WgDone] c))
   \<and> (\<not> closing c \<and> Pack cd message = Return (packed, None)
        \<and> writeMessageLength c = Some wml \<and> wml (int (length packed)) = (header, None)
        \<and> requestID cd message = Inl e
      \<longrightarrow> Send_enqueue cd c message =
            Return (SendReturned None (Some (Errorf ''creating request ID: '' e)),
                    emit [WgAdd, WgDone] c))
   \<and> (Send_enqueue cd c message = Return (SendReturned r err, c')
        \<or> Reply_enqueue cd c message = Return (ReplyReturned err, c')
      \<longrightarrow> respMap c' = respMap c \<and> added c c' = [WgAdd, WgDone]
          \<and> filter is_RequestsChSend (added c c') = [])"
proof -
  have "respMap c' = respMap c \<and> added c c' = [WgAdd, WgDone]
          \<and> filter is_RequestsChSend (added c c') = []"
    if "Send_enqueue cd c message = Return (SendReturned r err, c')
        \<or> Reply_enqueue cd c message = Return (ReplyReturned err, c')"
  proof -
    from that have "c' = emit [WgAdd, WgDone] c"
      by (auto dest: Send_enqueue_SendReturned Reply_enqueue_ReplyReturned)
    then show ?thesis by simp
  qed
  then show ?thesis
    using Send_enqueue_pack_failed [of c cd message packed e]
      Reply_enqueue_pack_failed [of c cd message packed e]
      Send_enqueue_header_failed [of c cd message packed wml header e]
      Reply_enqueue_header_failed [of c cd message packed wml header e]
      Send_enqueue_requestID_failed [of c cd message packed wml header e]
    by blast
qed

text \<open>
  The three failures on the small codec: a message without MTI does not pack, a message
  of 304 bytes does not fit the one-byte header, a message without field 11 has no
  correlator. Each time the call returns the wrapped error and the trace shows no
  request on the queue.
\<close>

theorem preflight_errors_returned_witness:
  "\<not> closing demoConn
   \<and> Pack memCodec (Some ([], ''000001'')) = Return ([], Some (Foreign ''no MTI''))
   \<and> Send_enqueue memCodec demoConn (Some ([], ''000001'')) =
        Return (SendReturned None (Some (Errorf ''packing message: '' (Foreign ''no MTI''))),
                emit [WgAdd, WgDone] demoConn)
   \<and> Reply_enqueue memCodec demoConn (Some ([], ''000001'')) =
        Return (ReplyReturned (Some (Errorf ''packing message: '' (Foreign ''no MTI''))),
                emit [WgAdd, WgDone] demoConn)
   \<and> Reply_enqueue memCodec demoConn (Some (''0810'', replicate 300 CHR ''0'')) =
        Return (ReplyReturned
                  (Some (Errorf ''writing message header to buffer: '' (Foreign ''too long''))),
                emit [WgAdd, WgDone] demoConn)
   \<and> Send_enqueue memCodec demoConn (Some (''0800'', [])) =
        Return (SendReturned None
                  (Some (Errorf ''creating request ID: '' (ErrorsNew ''STAN is missing''))),
                emit [WgAdd, WgDone] demoConn)
   \<and> respMap (emit [WgAdd, WgDone] demoConn) = respMap demoConn
   \<and> filter is_RequestsChSend (added demoConn (emit [WgAdd, WgDone] demoConn)) = []"
proof -
  have nc: "\<not> closing demoConn" and wl: "writeMessageLength demoConn = Some oneByteLength"
    by (simp_all add: demoConn_simps)
  have p1: "Pack memCodec (Some ([], ''000001'')) = Return ([], Some (Foreign ''no MTI''))"
    by (simp add: memCodec_simps)
  have p2: "Pack memCodec (Some (''0810'', replicate 300 CHR ''0''))
              = Return (''0810'' @ replicate 300 CHR ''0'', None)"
    by (simp add: memCodec_simps)
  have h2: "oneByteLength (int (length (''0810'' @ replicate 300 CHR ''0'')))
              = ([], Some (Foreign ''too long''))"
    by (simp add: oneByteLength_def)
  have p3: "Pack memCodec (Some (''0800'', [])) = Return (''0800'', None)"
    by (simp add: memCodec_simps)
  have h3: "oneByteLength (int (length ''0800'')) = ([char_of (4::int)], None)"
    by (simp add: oneByteLength_def)
  have r3: "requestID memCodec (Some (''0800'', [])) = Inl (ErrorsNew ''STAN is missing'')"
    by (simp add: requestID_def memCodec_simps)
  note a = preflight_errors_returned [of demoConn memCodec "Some ([], ''000001'')" "[]"
             "Foreign ''no MTI''" oneByteLength "[]" None
             "Some (Errorf ''packing message: '' (Foreign ''no MTI''))"
             "emit [WgAdd, WgDone] demoConn"]
  note b = preflight_errors_returned [of demoConn memCodec
             "Some (''0810'', replicate 300 CHR ''0'')" "''0810'' @ replicate 300 CHR ''0''"
             "Foreign ''too long''" oneByteLength "[]" None None demoConn]
  note d = preflight_errors_returned [of demoConn memCodec "Some (''0800'', [])" "''0800''"
             "ErrorsNew ''STAN is missing''" oneByteLength "[char_of (4::int)]" None None demoConn]
  have s1: "Send_enqueue memCodec demoConn (Some ([], ''000001'')) =
        Return (SendReturned None (Some (Errorf ''packing message: '' (Foreign ''no MTI''))),
                emit [WgAdd, WgDone] demoConn)"
    and s2: "Reply_enqueue memCodec demoConn (Some ([], ''000001'')) =
        Return (ReplyReturned (Some (Errorf ''packing message: '' (Foreign ''no MTI''))),
                emit [WgAdd, WgDone] demoConn)"
    using a nc p1 by blast+
  have s3: "Reply_enqueue memCodec demoConn (Some (''0810'', replicate 300 CHR ''0'')) =
        Return (ReplyReturned
                  (Some (Errorf ''writing message header to buffer: '' (Foreign ''too long''))),
                emit [WgAdd, WgDone] demoConn)"
    using b nc p2 wl h2 by blast
  have s4: "Send_enqueue memCodec demoConn (Some (''0800'', [])) =
        Return (SendReturned None
                  (Some (Errorf ''creating request ID: '' (ErrorsNew ''STAN is missing''))),
                emit [WgAdd, WgDone] demoConn)"
    using d nc p3 wl h3 r3 by blast
  have s5: "respMap (emit [WgAdd, WgDone] demoConn) = respMap demoConn
     \<and> filter is_RequestsChSend (added demoConn (emit [WgAdd, WgDone] demoConn)) = []"
    using a s1 by blast
  from nc p1 s1 s2 s3 s4 s5 show ?thesis by blast
qed

section \<open>The writer\<close>



section \<open>The dispatcher\<close>

text \<open>
  C7. When the payload does not unpack, \<open>handleResponse\<close> does nothing but report
  \<open>SafeError(ErrUnpack{err, rawMessage}, "failed to unpack message")\<close>: the error
  handler, when one is set, is started with it, and \<open>errors.As\<close> finds in it the
  \<open>ErrUnpack\<close> whose \<open>RawMessage\<close> is the payload. The pending table, the closing
  flag, the done-signal and the transport are as before and neither is closed, and a
  \<open>Send\<close> that would have put a request on the queue before still puts that request
  on the queue.
\<close>

theorem unpack_error_reported_only:
  "Unpack cd rawMessage = (m, Some err) \<longrightarrow>
     handleResponse cd c rawMessage =
       handleError c (SafeError (ErrUnpack (Some err) rawMessage) ''failed to unpack message'')
     \<and> (ErrorHandler (Opts c) = Some h \<longrightarrow>
          handleResponse cd c rawMessage =
            emit [GoErrorHandler h
                    (SafeError (ErrUnpack (Some err) rawMessage) ''failed to unpack message'')] c)
     \<and> errors_As (SafeError (ErrUnpack (Some err) rawMessage) ''failed to unpack message'')
          is_ErrUnpack = Some (ErrUnpack (Some err) rawMessage)
     \<and> RawMessage (ErrUnpack (Some err) rawMessage) = rawMessage
     \<and> respMap (handleResponse cd c rawMessage) = respMap c
     \<and> filter is_RespMap (added c (handleResponse cd c rawMessage)) = []
     \<and> closing (handleResponse cd c rawMessage) = closing c
     \<and> done_closed (handleResponse cd c rawMessage) = done_closed c
     \<and> conn (handleResponse cd c rawMessage) = conn c
     \<and> count_list (added c (handleResponse cd c rawMessage)) CloseDoneCh = 0
     \<and> count_list (added c (handleResponse cd c rawMessage)) ConnClose = 0
     \<and> (Send_enqueue cd c message = Return (step, c1) \<longrightarrow>
          (\<exists>c1'. Send_enqueue cd (handleResponse cd c rawMessage) message = Return (step, c1')))"
proof
  assume u: "Unpack cd rawMessage = (m, Some err)"
  let ?e = "SafeError (ErrUnpack (Some err) rawMessage) ''failed to unpack message''"
  let ?evs = "case ErrorHandler (Opts c) of None \<Rightarrow> [] | Some h \<Rightarrow> [GoErrorHandler h ?e]"
  from u have 1: "handleResponse cd c rawMessage = handleError c ?e"
    by (simp add: handleResponse_def)
  have 2: "handleResponse cd c rawMessage = emit ?evs c"
    unfolding 1 by (rule handleError_eq)
  have 3: "count_list ?evs CloseDoneCh = 0" "count_list ?evs ConnClose = 0"
    by (simp_all split: option.splits)
  have 4: "Send_enqueue cd c message = Return (step, c1) \<longrightarrow>
          (\<exists>c1'. Send_enqueue cd (handleResponse cd c rawMessage) message = Return (step, c1'))"
    unfolding 2 by (blast dest: Send_enqueue_after_emit)
  have 5: "ErrorHandler (Opts c) = Some h \<longrightarrow>
          handleResponse cd c rawMessage = emit [GoErrorHandler h ?e] c"
    unfolding 2 by simp
  have 6: "respMap (handleResponse cd c rawMessage) = respMap c"
      "filter is_RespMap (added c (handleResponse cd c rawMessage)) = []"
      "closing (handleResponse cd c rawMessage) = closing c"
      "done_closed (handleResponse cd c rawMessage) = done_closed c"
      "conn (handleResponse cd c rawMessage) = conn c"
      "count_list (added c (handleResponse cd c rawMessage)) CloseDoneCh = 0"
      "count_list (added c (handleResponse cd c rawMessage)) ConnClose = 0"
    unfolding 2 using 3 by simp_all
  have 7: "errors_As ?e is_ErrUnpack = Some (ErrUnpack (Some err) rawMessage)"
      "RawMessage (ErrUnpack (Some err) rawMessage) = rawMessage"
    by simp_all
  from 1 4 5 6 7 show "handleResponse cd c rawMessage = handleError c ?e
     \<and> (ErrorHandler (Opts c) = Some h \<longrightarrow>
          handleResponse cd c rawMessage = emit [GoErrorHandler h ?e] c)
     \<and> errors_As ?e is_ErrUnpack = Some (ErrUnpack (Some err) rawMessage)
     \<and> RawMessage (ErrUnpack (Some err) rawMessage) = rawMessage
     \<and> respMap (handleResponse cd c rawMessage) = respMap c
     \<and> filter is_RespMap (added c (handleResponse cd c rawMessage)) = []
     \<and> closing (handleResponse cd c rawMessage) = closing c
     \<and> done_closed (handleResponse cd c rawMessage) = done_closed c
     \<and> conn (handleResponse cd c rawMessage) = conn c
     \<and> count_list (added c (handleResponse cd c rawMessage)) CloseDoneCh = 0
     \<and> count_list (added c (handleResponse cd c rawMessage)) ConnClose = 0
     \<and> (Send_enqueue cd c message = Return (step, c1) \<longrightarrow>
          (\<exists>c1'. Send_enqueue cd (handleResponse cd c rawMessage) message = Return (step, c1')))"
    by blast
qed

text \<open>
  A payload of three bytes, which the small codec does not unpack, arrives while one
  request is pending: the error handler is started with the unpack error, and the next
  \<open>Send\<close> puts its request on the queue, the writer registers and writes it, and the
  reply 0810 with the same field 11 is sent on its reply channel.
\<close>

theorem unpack_error_reported_only_witness:
  "Unpack memCodec ''081'' = (([], []), Some (Foreign ''short message''))
   \<and> ErrorHandler (Opts demoPending) = Some 11
   \<and> handleResponse memCodec demoPending ''081'' =
       emit [GoErrorHandler 11
               (SafeError (ErrUnpack (Some (Foreign ''short message'')) ''081'')
                  ''failed to unpack message'')] demoPending
   \<and> respMap (handleResponse memCodec demoPending ''081'') = respMap demoPending
   \<and> \<not> closing (handleResponse memCodec demoPending ''081'')
   \<and> \<not> done_closed (handleResponse memCodec demoPending ''081'')
   \<and> Send_enqueue memCodec demoPending (Some (''0800'', ''000002'')) =
       Return (SendEnqueued demoRequest2,
               emit [WgAdd, RequestsChSend demoRequest2] (demoPending\<lparr>nchan := 8\<rparr>))
   \<and> Send_enqueue memCodec (handleResponse memCodec demoPending ''081'')
        (Some (''0800'', ''000002'')) =
       Return (SendEnqueued demoRequest2,
               emit [GoErrorHandler 11
                       (SafeError (ErrUnpack (Some (Foreign ''short message'')) ''081'')
                          ''failed to unpack message''),
                     WgAdd, RequestsChSend demoRequest2] (demoPending\<lparr>nchan := 8\<rparr>))
   \<and> run memCodec
         [Inbound ''081'', CallSend (Some (''0800'', ''000002'')), WriterRequest demoRequest2,
          Inbound ''0810000002''] demoPending =
       Return (emit [GoErrorHandler 11
                       (SafeError (ErrUnpack (Some (Foreign ''short message'')) ''081'')
                          ''failed to unpack message''),
                     WgAdd, RequestsChSend demoRequest2,
                     RespMapStore ''000002'' \<lparr>replyCh = Some 6, errCh = Some 7\<rparr>,
                     ConnWrite (char_of (10 :: int) # ''0800000002''),
                     RespMapLoad ''000002'',
                     ReplyChSend (Some 6) (''0810'', ''000002'')]
                 (demoPending\<lparr>nchan := 8,
                    respMap := [(''000001'', \<lparr>replyCh = Some 4, errCh = Some 5\<rparr>),
                                (''000002'', \<lparr>replyCh = Some 6, errCh = Some 7\<rparr>)]\<rparr>))"
proof -
  let ?e = "SafeError (ErrUnpack (Some (Foreign ''short message'')) ''081'')
              ''failed to unpack message''"
  have u: "Unpack memCodec ''081'' = (([], []), Some (Foreign ''short message''))"
    by (simp add: memCodec_simps)
  have h: "ErrorHandler (Opts demoPending) = Some 11"
    by (simp add: demoPending_simps allHandlers_simps)
  have s: "Send_enqueue memCodec demoPending (Some (''0800'', ''000002'')) =
       Return (SendEnqueued demoRequest2,
               emit [WgAdd, RequestsChSend demoRequest2] (demoPending\<lparr>nchan := 8\<rparr>))"
    by (simp add: Send_enqueue_def Let_def memCodec_simps demoPending_simps requestID_def
          oneByteLength_def demoRequest2_def emit_def)
  note t = unpack_error_reported_only [of memCodec "''081''" "([], [])" "Foreign ''short message''"
             demoPending 11 "Some (''0800'', ''000002'')" "SendEnqueued demoRequest2"
             "emit [WgAdd, RequestsChSend demoRequest2] (demoPending\<lparr>nchan := 8\<rparr>)"]
  from t u h have 1: "handleResponse memCodec demoPending ''081'' = emit [GoErrorHandler 11 ?e] demoPending"
    by blast
  from t u have 2: "respMap (handleResponse memCodec demoPending ''081'') = respMap demoPending"
      "closing (handleResponse memCodec demoPending ''081'') = closing demoPending"
      "done_closed (handleResponse memCodec demoPending ''081'') = done_closed demoPending"
    by blast+
  from t u s obtain c1' where
    3: "Send_enqueue memCodec (handleResponse memCodec demoPending ''081'')
          (Some (''0800'', ''000002'')) = Return (SendEnqueued demoRequest2, c1')"
    by blast
  have 4: "Send_enqueue memCodec (handleResponse memCodec demoPending ''081'')
        (Some (''0800'', ''000002'')) =
       Return (SendEnqueued demoRequest2,
               emit [GoErrorHandler 11 ?e, WgAdd, RequestsChSend demoRequest2]
                 (demoPending\<lparr>nchan := 8\<rparr>))"
    unfolding 1
    by (simp add: Send_enqueue_def Let_def memCodec_simps demoPending_simps requestID_def
          oneByteLength_def demoRequest2_def emit_def)
  have w: "writeLoop_request
              (emit [GoErrorHandler 11 ?e, WgAdd, RequestsChSend demoRequest2]
                 (demoPending\<lparr>nchan := 8\<rparr>)) demoRequest2
           = Return (Continue,
               emit [GoErrorHandler 11 ?e, WgAdd, RequestsChSend demoRequest2,
                     RespMapStore ''000002'' \<lparr>replyCh = Some 6, errCh = Some 7\<rparr>,
                     ConnWrite (char_of (10 :: int) # ''0800000002'')]
                 (demoPending\<lparr>nchan := 8,
                    respMap := [(''000001'', \<lparr>replyCh = Some 4, errCh = Some 5\<rparr>),
                                (''000002'', \<lparr>replyCh = Some 6, errCh = Some 7\<rparr>)]\<rparr>))"
    by (simp add: writeLoop_request_def Let_def demoRequest2_def demoPending_simps
          goodConn_def emit_def)
  have r: "handleResponse memCodec
              (emit [GoErrorHandler 11 ?e, WgAdd, RequestsChSend demoRequest2,
                     RespMapStore ''000002'' \<lparr>replyCh = Some 6, errCh = Some 7\<rparr>,
                     ConnWrite (char_of (10 :: int) # ''0800000002'')]
                 (demoPending\<lparr>nchan := 8,
                    respMap := [(''000001'', \<lparr>replyCh = Some 4, errCh = Some 5\<rparr>),
                                (''000002'', \<lparr>replyCh = Some 6, errCh = Some 7\<rparr>)]\<rparr>))
              ''0810000002''
           = emit [GoErrorHandler 11 ?e, WgAdd, RequestsChSend demoRequest2,
                     RespMapStore ''000002'' \<lparr>replyCh = Some 6, errCh = Some 7\<rparr>,
                     ConnWrite (char_of (10 :: int) # ''0800000002''),
                     RespMapLoad ''000002'',
                     ReplyChSend (Some 6) (''0810'', ''000002'')]
                 (demoPending\<lparr>nchan := 8,
                    respMap := [(''000001'', \<lparr>replyCh = Some 4, errCh = Some 5\<rparr>),
                                (''000002'', \<lparr>replyCh = Some 6, errCh = Some 7\<rparr>)]\<rparr>)"
    by (simp add: handleResponse_def memCodec_simps isResponse_third_byte requestID_def Let_def
          emit_def)
  have 5: "run memCodec
         [Inbound ''081'', CallSend (Some (''0800'', ''000002'')), WriterRequest demoRequest2,
          Inbound ''0810000002''] demoPending =
       Return (emit [GoErrorHandler 11 ?e, WgAdd, RequestsChSend demoRequest2,
                     RespMapStore ''000002'' \<lparr>replyCh = Some 6, errCh = Some 7\<rparr>,
                     ConnWrite (char_of (10 :: int) # ''0800000002''),
                     RespMapLoad ''000002'',
                     ReplyChSend (Some 6) (''0810'', ''000002'')]
                 (demoPending\<lparr>nchan := 8,
                    respMap := [(''000001'', \<lparr>replyCh = Some 4, errCh = Some 5\<rparr>),
                                (''000002'', \<lparr>replyCh = Some 6, errCh = Some 7\<rparr>)]\<rparr>))"
    by (simp add: 4 w r)
  from u h 1 2 s 4 5 show ?thesis
    by (simp add: demoPending_simps)
qed

text \<open>
  C8. For a message that unpacked and is not a response, \<open>handleResponse\<close> starts the
  inbound handler with it when one is set and does nothing at all otherwise; in both
  cases it performs no operation on the pending table, which is unchanged.
\<close>

theorem unsolicited_inbound_routing:
  "Unpack cd rawMessage = (m, None) \<and> \<not> isResponse cd (Some m) \<longrightarrow>
     handleResponse cd c rawMessage =
       (case InboundMessageHandler (Opts c) of
          Some h \<Rightarrow> emit [GoInboundMessageHandler h m] c
        | None \<Rightarrow> c)
     \<and> (InboundMessageHandler (Opts c) = None \<longrightarrow> handleResponse cd c rawMessage = c)
     \<and> respMap (handleResponse cd c rawMessage) = respMap c
     \<and> filter is_RespMap (added c (handleResponse cd c rawMessage)) = []"
  by (auto simp: handleResponse_def added_def split: option.splits)

text \<open>
  The message 0200 pushed by the peer goes to the inbound handler of a connection that
  has one and is dropped by a connection that has none; the pending table keeps its
  one entry.
\<close>

theorem unsolicited_inbound_routing_witness:
  "Unpack memCodec ''0200000001'' = ((''0200'', ''000001''), None)
   \<and> \<not> isResponse memCodec (Some (''0200'', ''000001''))
   \<and> handleResponse memCodec demoPending ''0200000001'' =
       emit [GoInboundMessageHandler 12 (''0200'', ''000001'')] demoPending
   \<and> respMap (handleResponse memCodec demoPending ''0200000001'')
       = [(''000001'', \<lparr>replyCh = Some 4, errCh = Some 5\<rparr>)]
   \<and> InboundMessageHandler (Opts quietDemo) = None
   \<and> handleResponse memCodec quietDemo ''0200000001'' = quietDemo"
proof -
  have u: "Unpack memCodec ''0200000001'' = ((''0200'', ''000001''), None)"
    by (simp add: memCodec_simps)
  have n: "\<not> isResponse memCodec (Some (''0200'', ''000001''))"
    by (simp add: isResponse_third_byte memCodec_simps)
  have q: "InboundMessageHandler (Opts quietDemo) = None"
    by (simp add: quietDemo_simps noHandlers_simps)
  note a = unsolicited_inbound_routing [of memCodec "''0200000001''" "(''0200'', ''000001'')"
             demoPending]
  note b = unsolicited_inbound_routing [of memCodec "''0200000001''" "(''0200'', ''000001'')"
             quietDemo]
  from a u n have 1: "handleResponse memCodec demoPending ''0200000001'' =
       emit [GoInboundMessageHandler 12 (''0200'', ''000001'')] demoPending"
    by (simp add: demoPending_simps allHandlers_simps)
  from a u n have 2: "respMap (handleResponse memCodec demoPending ''0200000001'')
       = [(''000001'', \<lparr>replyCh = Some 4, errCh = Some 5\<rparr>)]"
    by (simp add: demoPending_simps allHandlers_simps)
  from b u n q have 3: "handleResponse memCodec quietDemo ''0200000001'' = quietDemo"
    by blast
  from u n 1 2 q 3 show ?thesis by blast
qed

section \<open>Teardown\<close>

text \<open>
  C9. On a connection reached by any calls from a fresh one, \<open>Close\<close> returns and leaves
  the closing flag set; if the flag was set already it returns nil and changes nothing,
  and so does every \<open>Close\<close> after any further calls. At every moment the done-signal
  and the transport have each been closed at most once, and any number of \<open>Close\<close>
  calls in a row all return.
\<close>

theorem Close_idempotent:
  "fresh c0 \<and> run cd calls c0 = Return c \<longrightarrow>
     (\<exists>r c1. Close c = Return (r, c1) \<and> closing c1
        \<and> (closing c \<longrightarrow> r = None \<and> c1 = c)
        \<and> (\<forall>later c2. run cd later c1 = Return c2 \<longrightarrow> Close c2 = Return (None, c2)))
     \<and> count_list (trace c) CloseDoneCh \<le> 1
     \<and> count_list (trace c) ConnClose \<le> 1
     \<and> (\<exists>c'. run cd (replicate n CallClose) c = Return c'
              \<and> count_list (trace c') CloseDoneCh \<le> 1
              \<and> count_list (trace c') ConnClose \<le> 1)"
proof
  assume a: "fresh c0 \<and> run cd calls c0 = Return c"
  then have i0: "teardown_inv c0" by (simp add: fresh_inv)
  with a have i: "teardown_inv c" by (auto dest: run_kept simp: kept_def)
  have le: "count_list (trace x) CloseDoneCh \<le> 1 \<and> count_list (trace x) ConnClose \<le> 1"
    if "teardown_inv x" for x :: "'a Connection"
    using that by (auto simp: teardown_inv_def split: if_splits)
  from i obtain r c1 where c: "Close c = Return (r, c1)"
    using Close_no_Panic [of c] by (cases "Close c") auto
  with i have k: "kept c c1" by (rule Close_kept)
  from c have cl: "closing c1"
    by (cases "closing c") (auto simp: Close_def close_def Let_def split: if_splits option.splits)
  have same: "closing c \<longrightarrow> r = None \<and> c1 = c"
    using c by (auto simp: Close_closing)
  have later: "Close c2 = Return (None, c2)" if "run cd later c1 = Return c2" for later c2
  proof -
    from k have "teardown_inv c1" by (simp add: kept_def)
    from run_kept [OF this that] cl have "closing c2" by (simp add: kept_def)
    then show ?thesis by (rule Close_closing)
  qed
  from run_Close_returns [OF i, of cd n]
  obtain c' where r: "run cd (replicate n CallClose) c = Return c'" by blast
  from run_kept [OF i r] have "teardown_inv c'" by (simp add: kept_def)
  with le r have rep: "\<exists>c'. run cd (replicate n CallClose) c = Return c'
              \<and> count_list (trace c') CloseDoneCh \<le> 1
              \<and> count_list (trace c') ConnClose \<le> 1"
    by blast
  from c cl same later le [OF i] rep
  show "(\<exists>r c1. Close c = Return (r, c1) \<and> closing c1
        \<and> (closing c \<longrightarrow> r = None \<and> c1 = c)
        \<and> (\<forall>later c2. run cd later c1 = Return c2 \<longrightarrow> Close c2 = Return (None, c2)))
     \<and> count_list (trace c) CloseDoneCh \<le> 1
     \<and> count_list (trace c) ConnClose \<le> 1
     \<and> (\<exists>c'. run cd (replicate n CallClose) c = Return c'
              \<and> count_list (trace c') CloseDoneCh \<le> 1
              \<and> count_list (trace c') ConnClose \<le> 1)"
    by blast
qed

text \<open>
  Three \<open>Close\<close> calls on the connection with one pending request: the first tears
  down, the others return nil and change nothing; one close of the done-signal and one
  of the transport are in the trace.
\<close>

theorem Close_idempotent_witness:
  "fresh demoPending \<and> run memCodec [] demoPending = Return demoPending
   \<and> Close demoPending = Return (None, closedPending)
   \<and> closing closedPending
   \<and> Close closedPending = Return (None, closedPending)
   \<and> run memCodec [CallClose, CallClose, CallClose] demoPending = Return closedPending
   \<and> count_list (trace closedPending) CloseDoneCh = 1
   \<and> count_list (trace closedPending) ConnClose = 1"
proof -
  have f: "fresh demoPending \<and> run memCodec [] demoPending = Return demoPending"
    by (simp add: fresh_demoPending)
  note t = Close_idempotent [of demoPending memCodec "[]" demoPending 3]
  from t f obtain r c1 where
    1: "Close demoPending = Return (r, c1)" and 2: "closing c1"
    and 3: "\<forall>later c2. run memCodec later c1 = Return c2 \<longrightarrow> Close c2 = Return (None, c2)"
    by blast
  from 1 have c1: "c1 = closedPending" and r: "r = None"
    by (simp_all add: Close_demoPending)
  from 3 c1 have 4: "Close closedPending = Return (None, closedPending)"
    using run.simps(1) [of memCodec closedPending] by blast
  have 5: "run memCodec [CallClose, CallClose, CallClose] demoPending = Return closedPending"
    by (simp add: Close_demoPending 4)
  have 6: "count_list (trace closedPending) CloseDoneCh = 1"
      "count_list (trace closedPending) ConnClose = 1"
    by (simp_all add: closedPending_simps)
  from f 1 2 c1 r 4 5 6 show ?thesis by simp
qed







end
